theory Spec2Isabelle
  imports Complex_Main
begin

section \<open>Errors as values\<close>

text \<open>
  Every exception the modelled Python can raise is a constructor of \<open>error\<close>; a
  call that may raise has the result type \<open>error + 'a\<close>, with \<open>Inl\<close> for the
  exception. \<open>bindE\<close> is sequencing: the first exception ends the computation.
\<close>

datatype error =
    MissingData string
  | ValueError
  | LinAlgError
  | AssertionError
  | IndexError
  | NameError string
  | TypeError
  | AttributeError
  | Exception string
  | ExternalError string

definition bindE :: "error + 'a \<Rightarrow> ('a \<Rightarrow> error + 'b) \<Rightarrow> error + 'b" where
  "bindE m f = (case m of Inl e \<Rightarrow> Inl e | Inr x \<Rightarrow> f x)"

text \<open>A \<open>for\<close> loop that appends one computed entry per element, in order.\<close>

fun mapE :: "('a \<Rightarrow> error + 'b) \<Rightarrow> 'a list \<Rightarrow> error + 'b list" where
  "mapE f [] = Inr []"
| "mapE f (x # xs) = bindE (f x) (\<lambda>y. bindE (mapE f xs) (\<lambda>ys. Inr (y # ys)))"

text \<open>Python's \<open>xs[i]\<close> for \<open>i\<close> from a \<open>range\<close>: out of range raises.\<close>

definition index :: "'a list \<Rightarrow> nat \<Rightarrow> error + 'a" where
  "index xs i = (if i < length xs then Inr (xs ! i) else Inl IndexError)"

section \<open>numpy arrays\<close>

text \<open>
  A one-dimensional array is a list of reals and a two-dimensional array the list of
  its rows. Floating-point numbers are idealised as reals. The operators raise
  \<open>ValueError\<close> on shapes numpy refuses; \<open>-\<close> and \<open>+\<close> broadcast an array of
  length one, \<open>dot\<close> never broadcasts.
\<close>

type_synonym vec = "real list"
type_synonym mat = "real list list"

definition broadcast :: "(real \<Rightarrow> real \<Rightarrow> real) \<Rightarrow> vec \<Rightarrow> vec \<Rightarrow> error + vec" where
  "broadcast f a b =
     (if length a = length b then Inr (map2 f a b)
      else if length b = 1 then Inr (map (\<lambda>x. f x (hd b)) a)
      else if length a = 1 then Inr (map (\<lambda>x. f (hd a) x) b)
      else Inl ValueError)"

definition arr_sub :: "vec \<Rightarrow> vec \<Rightarrow> error + vec" where
  "arr_sub a b = broadcast (\<lambda>x y. x - y) a b"

definition arr_add :: "vec \<Rightarrow> vec \<Rightarrow> error + vec" where
  "arr_add a b = broadcast (\<lambda>x y. x + y) a b"

definition inner :: "vec \<Rightarrow> vec \<Rightarrow> real" where
  "inner a b = sum_list (map2 (\<lambda>x y. x * y) a b)"

definition dot :: "vec \<Rightarrow> vec \<Rightarrow> error + real" where
  "dot a b = (if length a = length b then Inr (inner a b) else Inl ValueError)"

definition mat_dot :: "mat \<Rightarrow> vec \<Rightarrow> error + vec" where
  "mat_dot A v =
     (if list_all (\<lambda>r. length r = length v) A then Inr (map (\<lambda>r. inner r v) A)
      else Inl ValueError)"

definition ncols :: "mat \<Rightarrow> nat" where
  "ncols A = (if A = [] then 0 else length (hd A))"

definition diagonal :: "mat \<Rightarrow> vec" where
  "diagonal A = map (\<lambda>i. A ! i ! i) [0..<min (length A) (ncols A)]"

text \<open>
  \<open>numpy.linalg\<close> is not code of this repository: \<open>solve\<close> and \<open>slogdet\<close> are
  parameters. \<open>solve\<close> is used with a vector and with a matrix as right-hand side,
  hence two fields. Each may raise (a singular or non-square matrix, a shape
  mismatch).
\<close>

record linalg =
  solve :: "mat \<Rightarrow> vec \<Rightarrow> error + vec"
  solve_mat :: "mat \<Rightarrow> mat \<Rightarrow> error + mat"
  slogdet :: "mat \<Rightarrow> error + real \<times> real"

section \<open>Mean and covariance function objects\<close>

text \<open>
  Modelled from the spec: the mean and covariance classes (\<open>lim.mean\<close>,
  \<open>lim.cov\<close>) are missing from the sources. Section 6 of the spec gives their
  contract: data is bound under a named purpose by \<open>set_data\<close> and removed by
  \<open>unset_data\<close>; \<open>data(purpose)\<close> is an evaluation handle with the function's
  value over the bound data and one gradient entry per free hyperparameter;
  \<open>variables()\<close> is the ordered variable set and \<open>select(fixed=False)\<close> keeps the
  free ones. Asking for a purpose with no bound data is the missing-purpose-data
  error. The handle also carries the raw inputs (\<open>.raw\<close>), which \<open>predict\<close> reads.
\<close>

record variable =
  var_name :: string
  var_value :: real
  var_fixed :: bool

record ('r, 'v) func =
  func_variables :: "variable list"
  func_bound :: "string \<rightharpoonup> 'r"
  func_value :: "'r \<Rightarrow> 'v"
  func_gradient :: "'r \<Rightarrow> 'v list"

record ('r, 'v) handle =
  raw :: 'r
  hvalue :: 'v
  hgradient :: "'v list"

definition data :: "('r, 'v) func \<Rightarrow> string \<Rightarrow> error + ('r, 'v) handle" where
  "data f purpose =
     (case func_bound f purpose of
        None \<Rightarrow> Inl (MissingData purpose)
      | Some r \<Rightarrow> Inr \<lparr>raw = r, hvalue = func_value f r, hgradient = func_gradient f r\<rparr>)"

definition set_data :: "'r \<Rightarrow> string \<Rightarrow> ('r, 'v) func \<Rightarrow> ('r, 'v) func" where
  "set_data r purpose f = f\<lparr>func_bound := (func_bound f)(purpose \<mapsto> r)\<rparr>"

definition unset_data :: "string \<Rightarrow> ('r, 'v) func \<Rightarrow> ('r, 'v) func" where
  "unset_data purpose f = f\<lparr>func_bound := (func_bound f)(purpose := None)\<rparr>"

text \<open>
  Modelled from the spec: section 6 writes the signature as
  \<open>set_data(raw_inputs, purpose)\<close>, one data argument and the purpose, and every
  call in the tests passes one data argument (a tuple) and the keyword \<open>purpose\<close>.
  Python binds the positional arguments of a call to the parameters in order and
  then the keywords; a positional argument beyond the parameters, or a keyword
  naming a parameter that a positional argument has filled, is a \<open>TypeError\<close>
  raised before the body runs. \<open>bind_call\<close> is that check, for a call with
  \<open>npos\<close> positional arguments and the given keywords.
\<close>

definition set_data_params :: "string list" where
  "set_data_params = [''raw_inputs'', ''purpose'']"

definition bind_call :: "string list \<Rightarrow> nat \<Rightarrow> string list \<Rightarrow> error + unit" where
  "bind_call params npos keywords =
     (if npos \<le> length params \<and> list_all (\<lambda>k. k \<in> set (drop npos params)) keywords
      then Inr () else Inl TypeError)"

definition variables :: "('r, 'v) func \<Rightarrow> variable list" where
  "variables f = func_variables f"

definition select :: "bool \<Rightarrow> variable list \<Rightarrow> variable list" where
  "select fixed vs = filter (\<lambda>v. var_fixed v = fixed) vs"

text \<open>
  Modelled from the spec: \<open>merge_variables\<close> (\<open>lim.func\<close>) is missing from the
  sources. The spec: one ordered variable set, each variable qualified by its
  owner's key, owners in the order given.
\<close>

definition merge_variables :: "(string \<times> variable list) list \<Rightarrow> (string \<times> variable) list" where
  "merge_variables owners = concat (map (\<lambda>(owner, vs). map (Pair owner) vs) owners)"

section \<open>RegGP\<close>

text \<open>
  The object holds three references. The optimizers \<open>maximize_scalar\<close> and
  \<open>maximize_array\<close> (\<open>lim.func.optimize\<close>) are missing from the sources and are
  parameters: an optimizer is handed the objective (\<open>value\<close> and \<open>gradient\<close> of the
  object) and the object's state, and returns the state it leaves or raises.
  \<open>learn\<close> of the gp class first stores the two closures as the attributes
  \<open>value\<close> and \<open>gradient\<close> of the object; no method reads them, they are the
  objective handed to the optimizer, and the state keeps the three references only.
\<close>

record ('m, 'x) reggp =
  self_y :: vec
  self_cov :: "('x \<times> 'x, mat) func"
  self_mean :: "('m, vec) func"

type_synonym ('m, 'x) optimizer =
  "(('m, 'x) reggp \<Rightarrow> error + real) \<Rightarrow> (('m, 'x) reggp \<Rightarrow> error + real list)
     \<Rightarrow> ('m, 'x) reggp \<Rightarrow> error + ('m, 'x) reggp"

subsection \<open>src/lim/gp/regression.py\<close>

definition gp_init :: "vec \<Rightarrow> ('m, vec) func \<Rightarrow> ('x \<times> 'x, mat) func \<Rightarrow> error + ('m, 'x) reggp" where
  "gp_init y mean cov = Inr \<lparr>self_y = y, self_cov = cov, self_mean = mean\<rparr>"

definition gp_Kim :: "linalg \<Rightarrow> ('m, 'x) reggp \<Rightarrow> error + vec" where
  "gp_Kim np s =
     bindE (data (self_mean s) ''learn'') (\<lambda>hm.
     bindE (data (self_cov s) ''learn'') (\<lambda>hK.
     bindE (arr_sub (self_y s) (hvalue hm)) (\<lambda>ym.
       solve np (hvalue hK) ym)))"

definition gp_lml :: "linalg \<Rightarrow> ('m, 'x) reggp \<Rightarrow> error + real" where
  "gp_lml np s =
     bindE (gp_Kim np s) (\<lambda>Kiym.
     bindE (data (self_mean s) ''learn'') (\<lambda>hm.
     bindE (arr_sub (self_y s) (hvalue hm)) (\<lambda>ym.
     bindE (data (self_cov s) ''learn'') (\<lambda>hK.
     bindE (slogdet np (hvalue hK)) (\<lambda>(sg, logdet).
       if sg \<noteq> 1 then Inl AssertionError
       else bindE (dot ym Kiym) (\<lambda>q.
         Inr (- (logdet + q + real (length (self_y s)) * ln (2 * pi)) / 2)))))))"

definition gp_lml_gradient_mean :: "linalg \<Rightarrow> ('m, 'x) reggp \<Rightarrow> error + real list" where
  "gp_lml_gradient_mean np s =
     (let vars = select False (variables (self_mean s)) in
      bindE (gp_Kim np s) (\<lambda>Kiym.
        mapE (\<lambda>i.
          bindE (data (self_mean s) ''learn'') (\<lambda>hm.
          bindE (index (hgradient hm) i) (\<lambda>dm.
            dot dm Kiym)))
          [0..<length vars]))"

definition gp_lml_gradient_cov :: "linalg \<Rightarrow> ('m, 'x) reggp \<Rightarrow> error + real list" where
  "gp_lml_gradient_cov np s =
     (let vars = select False (variables (self_cov s)) in
      bindE (data (self_cov s) ''learn'') (\<lambda>hK.
      bindE (gp_Kim np s) (\<lambda>Kiym.
      bindE (mapE (\<lambda>i.
          bindE (data (self_cov s) ''learn'') (\<lambda>h.
          bindE (index (hgradient h) i) (\<lambda>dK.
          bindE (solve_mat np (hvalue hK) dK) (\<lambda>KidK.
          bindE (mat_dot dK Kiym) (\<lambda>dKKiym.
          bindE (dot Kiym dKKiym) (\<lambda>q.
            Inr (- sum_list (diagonal KidK) + q)))))))
          [0..<length vars]) (\<lambda>g.
        Inr (map (\<lambda>gi. gi / 2) g)))))"

definition gp_lml_gradient :: "linalg \<Rightarrow> ('m, 'x) reggp \<Rightarrow> error + real list" where
  "gp_lml_gradient np s =
     bindE (gp_lml_gradient_cov np s) (\<lambda>grad_cov.
     bindE (gp_lml_gradient_mean np s) (\<lambda>grad_mean.
       Inr (grad_cov @ grad_mean)))"

definition gp_variables :: "('m, 'x) reggp \<Rightarrow> (string \<times> variable) list" where
  "gp_variables s =
     (let v0 = select False (variables (self_mean s));
          v1 = select False (variables (self_cov s))
      in merge_variables [(''mean'', v0), (''cov'', v1)])"

definition gp_learn ::
  "linalg \<Rightarrow> ('m, 'x) optimizer \<Rightarrow> ('m, 'x) optimizer \<Rightarrow> ('m, 'x) reggp \<Rightarrow> error + ('m, 'x) reggp" where
  "gp_learn np maximize_scalar maximize_array s =
     (if length (gp_variables s) = 0 then Inr s
      else if length (gp_variables s) = 1
        then maximize_scalar (gp_lml np) (gp_lml_gradient np) s
      else maximize_array (gp_lml np) (gp_lml_gradient np) s)"

text \<open>
  \<open>predict\<close> works on the shared covariance object, so it returns the state it
  leaves together with its result. Line 96 calls \<open>cov.set_data\<close> with two
  positional arguments (the first raw input of the learn purpose, the first raw
  input of the predict purpose) and the keyword \<open>purpose\<close>: the arguments are
  evaluated, then the call is bound against \<open>set_data_params\<close>. The lines after
  the call are modelled as they would run had it bound the two inputs as one pair;
  with the signature of the specification it does not bind.
\<close>

definition gp_predict :: "linalg \<Rightarrow> ('m, 'x) reggp \<Rightarrow> (error + vec) \<times> ('m, 'x) reggp" where
  "gp_predict np s =
     (case data (self_mean s) ''predict'' of Inl e \<Rightarrow> (Inl e, s) | Inr hmp \<Rightarrow>
     (case gp_Kim np s of Inl e \<Rightarrow> (Inl e, s) | Inr Kim \<Rightarrow>
     (case data (self_cov s) ''predict'' of Inl e \<Rightarrow> (Inl e, s) | Inr hpp \<Rightarrow>
     (case data (self_cov s) ''learn'' of Inl e \<Rightarrow> (Inl e, s) | Inr hl \<Rightarrow>
     (case data (self_cov s) ''predict'' of Inl e \<Rightarrow> (Inl e, s) | Inr hp \<Rightarrow>
     (case bind_call set_data_params 2 [''purpose''] of Inl e \<Rightarrow> (Inl e, s) | Inr _ \<Rightarrow>
        (let s1 = s\<lparr>self_cov :=
                    set_data (fst (raw hl), fst (raw hp)) ''learn_predict'' (self_cov s)\<rparr>
         in
        (case data (self_cov s1) ''learn_predict'' of Inl e \<Rightarrow> (Inl e, s1) | Inr hlp \<Rightarrow>
        (case bindE (mat_dot (transpose (hvalue hlp)) Kim) (arr_add (hvalue hmp)) of
           Inl e \<Rightarrow> (Inl e, s1)
         | Inr est_mean \<Rightarrow>
             (Inr est_mean,
              s1\<lparr>self_cov := unset_data ''learn_predict'' (self_cov s1)\<rparr>))))))))))"

subsection \<open>src/lim/inference/regression.py\<close>

definition inference_init ::
  "vec \<Rightarrow> ('m, vec) func \<Rightarrow> ('x \<times> 'x, mat) func \<Rightarrow> error + ('m, 'x) reggp" where
  "inference_init y mean cov = Inr \<lparr>self_y = y, self_cov = cov, self_mean = mean\<rparr>"

definition inference_Kim :: "linalg \<Rightarrow> ('m, 'x) reggp \<Rightarrow> error + vec" where
  "inference_Kim np s =
     bindE (data (self_mean s) ''learn'') (\<lambda>hm.
     bindE (data (self_cov s) ''learn'') (\<lambda>hK.
     bindE (arr_sub (self_y s) (hvalue hm)) (\<lambda>ym.
       solve np (hvalue hK) ym)))"

definition inference_lml :: "linalg \<Rightarrow> ('m, 'x) reggp \<Rightarrow> error + real" where
  "inference_lml np s =
     bindE (inference_Kim np s) (\<lambda>Kiym.
     bindE (data (self_mean s) ''learn'') (\<lambda>hm.
     bindE (arr_sub (self_y s) (hvalue hm)) (\<lambda>ym.
     bindE (data (self_cov s) ''learn'') (\<lambda>hK.
     bindE (slogdet np (hvalue hK)) (\<lambda>(sg, logdet).
       if sg \<noteq> 1 then Inl AssertionError
       else bindE (dot ym Kiym) (\<lambda>q.
         Inr (- (logdet + q + real (length (self_y s)) * ln (2 * pi)) / 2)))))))"

definition inference_lml_gradient_mean :: "linalg \<Rightarrow> ('m, 'x) reggp \<Rightarrow> error + real list" where
  "inference_lml_gradient_mean np s =
     (let vars = select False (variables (self_mean s)) in
      bindE (inference_Kim np s) (\<lambda>Kiym.
        mapE (\<lambda>i.
          bindE (data (self_mean s) ''learn'') (\<lambda>hm.
          bindE (index (hgradient hm) i) (\<lambda>dm.
            dot dm Kiym)))
          [0..<length vars]))"

definition inference_lml_gradient_cov :: "linalg \<Rightarrow> ('m, 'x) reggp \<Rightarrow> error + real list" where
  "inference_lml_gradient_cov np s =
     (let vars = select False (variables (self_cov s)) in
      bindE (data (self_cov s) ''learn'') (\<lambda>hK.
      bindE (inference_Kim np s) (\<lambda>Kiym.
      bindE (mapE (\<lambda>i.
          bindE (data (self_cov s) ''learn'') (\<lambda>h.
          bindE (index (hgradient h) i) (\<lambda>dK.
          bindE (solve_mat np (hvalue hK) dK) (\<lambda>KidK.
          bindE (mat_dot dK Kiym) (\<lambda>dKKiym.
          bindE (dot Kiym dKKiym) (\<lambda>q.
            Inr (- sum_list (diagonal KidK) + q)))))))
          [0..<length vars]) (\<lambda>g.
        Inr (map (\<lambda>gi. gi / 2) g)))))"

definition inference_lml_gradient :: "linalg \<Rightarrow> ('m, 'x) reggp \<Rightarrow> error + real list" where
  "inference_lml_gradient np s =
     bindE (inference_lml_gradient_cov np s) (\<lambda>grad_cov.
     bindE (inference_lml_gradient_mean np s) (\<lambda>grad_mean.
       Inr (grad_cov @ grad_mean)))"

definition inference_variables :: "('m, 'x) reggp \<Rightarrow> (string \<times> variable) list" where
  "inference_variables s =
     (let v0 = select False (variables (self_mean s));
          v1 = select False (variables (self_cov s))
      in merge_variables [(''mean'', v0), (''cov'', v1)])"

definition inference_value :: "linalg \<Rightarrow> ('m, 'x) reggp \<Rightarrow> error + real" where
  "inference_value np s = inference_lml np s"

definition inference_gradient :: "linalg \<Rightarrow> ('m, 'x) reggp \<Rightarrow> error + real list" where
  "inference_gradient np s = inference_lml_gradient np s"

definition inference_learn ::
  "linalg \<Rightarrow> ('m, 'x) optimizer \<Rightarrow> ('m, 'x) optimizer \<Rightarrow> ('m, 'x) reggp \<Rightarrow> error + ('m, 'x) reggp" where
  "inference_learn np maximize_scalar maximize_array s =
     (if length (inference_variables s) = 0 then Inr s
      else if length (inference_variables s) = 1
        then maximize_scalar (inference_value np) (inference_gradient np) s
      else maximize_array (inference_value np) (inference_gradient np) s)"

definition inference_predict :: "linalg \<Rightarrow> ('m, 'x) reggp \<Rightarrow> (error + vec) \<times> ('m, 'x) reggp" where
  "inference_predict np s =
     (case data (self_mean s) ''predict'' of Inl e \<Rightarrow> (Inl e, s) | Inr hmp \<Rightarrow>
     (case inference_Kim np s of Inl e \<Rightarrow> (Inl e, s) | Inr Kim \<Rightarrow>
     (case data (self_cov s) ''predict'' of Inl e \<Rightarrow> (Inl e, s) | Inr hpp \<Rightarrow>
     (case data (self_cov s) ''learn_predict'' of Inl e \<Rightarrow> (Inl e, s) | Inr hlp \<Rightarrow>
     (case bindE (mat_dot (transpose (hvalue hlp)) Kim) (arr_add (hvalue hmp)) of
        Inl e \<Rightarrow> (Inl e, s)
      | Inr est_mean \<Rightarrow> (Inr est_mean, s))))))"

section \<open>Heritability estimation\<close>

subsection \<open>src/lim/genetics/heritability/estimate.py\<close>

text \<open>
  \<open>bernoulli_estimate\<close> reads two names, \<open>info\<close> and \<open>y\<close>, that it never
  assigns: Python looks them up among the globals of the module. \<open>estimate_globals\<close>
  lists what the module binds at top level (its imports and its three functions);
  none of these objects supports item assignment or has a \<open>shape\<close>.
\<close>

datatype pyobj = Module | Function | Class | Instance

definition estimate_globals :: "string \<rightharpoonup> pyobj" where
  "estimate_globals = map_of
     [(''division'', Instance), (''logging'', Module), (''ascontiguousarray'', Function),
      (''np'', Module), (''BernoulliEP'', Class), (''BinomialEP'', Class),
      (''PoissonEP'', Class), (''stdnorm'', Function), (''gower_normalization'', Function),
      (''qs_decomposition_from_K'', Function), (''qs_decomposition'', Function),
      (''bernoulli_estimate'', Function), (''binomial_estimate'', Function),
      (''poisson_estimate'', Function)]"

definition load_global :: "string \<Rightarrow> error + pyobj" where
  "load_global n = (case estimate_globals n of None \<Rightarrow> Inl (NameError n) | Some v \<Rightarrow> Inr v)"

definition setitem :: "pyobj \<Rightarrow> string \<Rightarrow> error + unit" where
  "setitem obj key = Inl TypeError"

definition shape0 :: "pyobj \<Rightarrow> error + nat" where
  "shape0 obj = Inl AttributeError"

text \<open>
  The collaborators of \<open>bernoulli_estimate\<close> are parameters, gathered in
  \<open>estimate_env\<close>: \<open>gower_normalization\<close> and \<open>BernoulliEP\<close> (code of this
  repository that is missing from the sources) and the decompositions of
  \<open>limix_math\<close>. A collaborator returns or raises with a message; \<open>ext\<close> turns
  that into an \<open>ExternalError\<close>, which no statement of the function itself raises.
  \<open>stdnorm(G, G)\<close> passes the marker matrix as the \<open>axis\<close> argument and drops the
  result; what numpy's reductions do with an array as axis is numpy's matter, so
  only whether the call raises is kept (\<open>stdnorm_call\<close>).
\<close>

definition ext :: "string + 'a \<Rightarrow> error + 'a" where
  "ext r = (case r of Inl msg \<Rightarrow> Inl (ExternalError msg) | Inr x \<Rightarrow> Inr x)"

record 'ep estimate_env =
  gower_normalization :: "mat \<Rightarrow> string + mat"
  stdnorm_call :: "mat \<Rightarrow> string + unit"
  qs_decomposition :: "mat \<Rightarrow> string + mat list \<times> vec list"
  qs_decomposition_from_K :: "mat option \<Rightarrow> string + mat list \<times> vec list"
  BernoulliEP :: "vec \<Rightarrow> mat \<Rightarrow> mat \<Rightarrow> mat \<Rightarrow> vec \<Rightarrow> string + 'ep"
  optimize :: "'ep \<Rightarrow> string + 'ep"
  heritability :: "'ep \<Rightarrow> real"

text \<open>
  The numpy expressions of the function over the reals: column means and standard
  deviations along axis 0, the in-place scaling of the columns whose deviation is
  positive, the truth of an array in \<open>if G:\<close> (false when empty, the truth of its
  element when it has one, \<open>ValueError\<close> otherwise) and \<open>S0 /= mean(S0)\<close>.
\<close>

definition column :: "mat \<Rightarrow> nat \<Rightarrow> vec" where
  "column G j = map (\<lambda>row. row ! j) G"

definition mean0 :: "mat \<Rightarrow> vec" where
  "mean0 G = map (\<lambda>j. sum_list (column G j) / real (length G)) [0..<ncols G]"

definition std0 :: "mat \<Rightarrow> vec" where
  "std0 G =
     map (\<lambda>j. sqrt (sum_list (map (\<lambda>x. (x - mean0 G ! j)\<^sup>2) (column G j)) / real (length G)))
       [0..<ncols G]"

definition normalize_markers :: "mat \<Rightarrow> mat" where
  "normalize_markers G0 =
     (let G = map (\<lambda>row. map2 (\<lambda>x m. x - m) row (mean0 G0)) G0;
          s = std0 G;
          G = map (\<lambda>row. map2 (\<lambda>x sj. if sj > 0 then x / sj else x) row s) G
      in map (map (\<lambda>x. x / sqrt (real (ncols G)))) G)"

definition array_bool :: "mat \<Rightarrow> error + bool" where
  "array_bool G =
     (let xs = concat G in
      if length xs = 0 then Inr False
      else if length xs = 1 then Inr (hd xs \<noteq> 0)
      else Inl ValueError)"

definition divide_by_mean :: "vec \<Rightarrow> vec" where
  "divide_by_mean S0 = map (\<lambda>x. x / (sum_list S0 / real (length S0))) S0"

definition bernoulli_estimate ::
  "'ep estimate_env \<Rightarrow> vec \<Rightarrow> mat option \<Rightarrow> mat option \<Rightarrow> mat option \<Rightarrow> error + real \<times> pyobj" where
  "bernoulli_estimate env outcomes G K covariate =
     bindE (case K of None \<Rightarrow> Inr None
            | Some k \<Rightarrow> bindE (ext (gower_normalization env k)) (\<lambda>k'. Inr (Some k'))) (\<lambda>K.
     bindE (case G of None \<Rightarrow> Inr None
            | Some g \<Rightarrow> bindE (ext (stdnorm_call env g)) (\<lambda>_. Inr (Some (normalize_markers g)))) (\<lambda>G.
     if G = None \<and> K = None then Inl (Exception ''G, K, and QS cannot be all None.'')
     else
     bindE (case G of None \<Rightarrow> ext (qs_decomposition_from_K env K)
            | Some g \<Rightarrow> bindE (array_bool g) (\<lambda>truth.
                if truth then ext (qs_decomposition env g)
                else ext (qs_decomposition_from_K env K))) (\<lambda>(Q, S).
     bindE (index Q 0) (\<lambda>Q0.
     bindE (index Q 1) (\<lambda>Q1.
     bindE (index S 0) (\<lambda>S0.
     let S0 = divide_by_mean S0 in
     bindE (load_global ''info'') (\<lambda>info. bindE (setitem info ''Q0'') (\<lambda>_.
     bindE (load_global ''info'') (\<lambda>info. bindE (setitem info ''Q1'') (\<lambda>_.
     bindE (load_global ''info'') (\<lambda>info. bindE (setitem info ''S0'') (\<lambda>_.
     bindE (case covariate of
              None \<Rightarrow> bindE (load_global ''y'') (\<lambda>y. bindE (shape0 y) (\<lambda>n.
                        Inr (replicate n [1])))
            | Some c \<Rightarrow> Inr c) (\<lambda>covariate.
     bindE (load_global ''info'') (\<lambda>info. bindE (setitem info ''covariate'') (\<lambda>_.
     bindE (ext (BernoulliEP env outcomes covariate Q0 Q1 S0)) (\<lambda>ep.
     bindE (ext (optimize env ep)) (\<lambda>ep.
     let h2 = heritability env ep in
     bindE (load_global ''info'') (\<lambda>info. bindE (setitem info ''ep'') (\<lambda>_.
     bindE (load_global ''info'') (\<lambda>info.
       Inr (h2, info)))))))))))))))))))))"

section \<open>The words of the specification\<close>

text \<open>
  These definitions follow the specification rather than the code. \<open>dims_match\<close>
  is the precondition of its section 4.1: \<open>y\<close>, the learn-purpose mean and the
  learn-purpose covariance agree in dimension. \<open>valid_cross\<close> says that a
  cross-covariance has one row per learn point and one column per predict point
  (with at least one learn point: a list of rows without rows has no column count).
  \<open>posterior_mean\<close> is \<open>m_predict + K_learn_predict.T . Kiym\<close>, entry by entry.
  \<open>det\<close> is the determinant (expansion along the first row) and
  \<open>left_inverse Ki K\<close> says that \<open>Ki\<close> is the inverse of the square matrix \<open>K\<close>:
  the formula of the specification is written with \<open>log|K|\<close> and the inverse.
\<close>

definition dims_match :: "vec \<Rightarrow> ('m, vec) func \<Rightarrow> ('x \<times> 'x, mat) func \<Rightarrow> bool" where
  "dims_match y mean cov =
     (case (data mean ''learn'', data cov ''learn'') of
        (Inr hm, Inr hK) \<Rightarrow>
          length (hvalue hm) = length y \<and> length (hvalue hK) = length y
          \<and> list_all (\<lambda>r. length r = length y) (hvalue hK)
      | _ \<Rightarrow> False)"

definition valid_cross :: "mat \<Rightarrow> vec \<Rightarrow> vec \<Rightarrow> bool" where
  "valid_cross K_lp Kiym m_p =
     (K_lp \<noteq> [] \<and> length K_lp = length Kiym \<and> list_all (\<lambda>r. length r = length m_p) K_lp)"

definition posterior_mean :: "vec \<Rightarrow> mat \<Rightarrow> vec \<Rightarrow> vec" where
  "posterior_mean m_p K_lp Kiym =
     map (\<lambda>j. m_p ! j + sum_list (map (\<lambda>i. K_lp ! i ! j * Kiym ! i) [0..<length Kiym]))
       [0..<length m_p]"

fun det :: "mat \<Rightarrow> real" where
  "det [] = 1"
| "det (r # rs) =
     sum_list (map (\<lambda>j. (- 1) ^ j * r ! j * det (map (\<lambda>row. take j row @ drop (Suc j) row) rs))
       [0..<length r])"

definition mat_mul :: "mat \<Rightarrow> mat \<Rightarrow> mat" where
  "mat_mul A B =
     map (\<lambda>r. map (\<lambda>j. sum_list (map (\<lambda>k. r ! k * B ! k ! j) [0..<length B])) [0..<ncols B]) A"

definition identity :: "nat \<Rightarrow> mat" where
  "identity n = map (\<lambda>i. map (\<lambda>j. if i = j then 1 else 0) [0..<n]) [0..<n]"

definition left_inverse :: "mat \<Rightarrow> mat \<Rightarrow> bool" where
  "left_inverse Ki K \<longleftrightarrow>
     list_all (\<lambda>r. length r = length K) K \<and> list_all (\<lambda>r. length r = length K) Ki
     \<and> mat_mul Ki K = identity (length K)"

section \<open>Concrete instances\<close>

text \<open>
  A small model in the shape of the repository's tests (an offset mean and a linear
  covariance), on which the definitions above are run. The learn-purpose covariance
  is diagonal, where \<open>solve\<close> and \<open>slogdet\<close> have the closed forms of
  \<open>diag_linalg\<close>; on other matrices \<open>diag_linalg\<close> is not numpy. The variants
  fix one or both hyperparameters, leave \<open>learn_predict\<close> unbound, or give a
  covariance with negative determinant. \<open>probe_scalar\<close> and \<open>probe_array\<close> are
  optimizers that only say they were called; \<open>stub_env\<close> is an environment in
  which no collaborator of \<open>bernoulli_estimate\<close> raises on a kinship matrix.
\<close>

definition diag_linalg :: linalg where
  "diag_linalg =
     \<lparr>solve = (\<lambda>K b.
        if length b = length K \<and> ncols K = length K \<and> list_all (\<lambda>d. d \<noteq> 0) (diagonal K)
        then Inr (map2 (\<lambda>x d. x / d) b (diagonal K)) else Inl LinAlgError),
      solve_mat = (\<lambda>K B.
        if length B = length K \<and> ncols K = length K \<and> list_all (\<lambda>d. d \<noteq> 0) (diagonal K)
        then Inr (map2 (\<lambda>row d. map (\<lambda>x. x / d) row) B (diagonal K)) else Inl LinAlgError),
      slogdet = (\<lambda>K.
        if ncols K = length K
        then Inr (sgn (prod_list (diagonal K)), ln \<bar>prod_list (diagonal K)\<bar>)
        else Inl LinAlgError)\<rparr>"

definition offset_mean :: "real \<Rightarrow> bool \<Rightarrow> (string \<rightharpoonup> nat) \<Rightarrow> (nat, vec) func" where
  "offset_mean offset fixed bound =
     \<lparr>func_variables = [\<lparr>var_name = ''offset'', var_value = offset, var_fixed = fixed\<rparr>],
      func_bound = bound,
      func_value = (\<lambda>n. replicate n offset),
      func_gradient = (\<lambda>n. if fixed then [] else [replicate n 1])\<rparr>"

definition linear_kernel :: "real \<Rightarrow> mat \<times> mat \<Rightarrow> mat" where
  "linear_kernel scale = (\<lambda>(X0, X1). map (\<lambda>a. map (\<lambda>b. scale * inner a b) X1) X0)"

definition linear_cov :: "real \<Rightarrow> bool \<Rightarrow> (string \<rightharpoonup> mat \<times> mat) \<Rightarrow> (mat \<times> mat, mat) func" where
  "linear_cov scale fixed bound =
     \<lparr>func_variables = [\<lparr>var_name = ''scale'', var_value = scale, var_fixed = fixed\<rparr>],
      func_bound = bound,
      func_value = linear_kernel scale,
      func_gradient = (\<lambda>r. if fixed then [] else [linear_kernel scale r])\<rparr>"

definition X_learn :: mat where "X_learn = [[1, 0], [0, 2]]"
definition X_predict :: mat where "X_predict = [[1, 1]]"

definition example_mean :: "(nat, vec) func" where
  "example_mean = offset_mean 1 False [''learn'' \<mapsto> 2, ''predict'' \<mapsto> 1]"

definition example_cov :: "(mat \<times> mat, mat) func" where
  "example_cov = linear_cov 1 False
     [''learn'' \<mapsto> (X_learn, X_learn), ''predict'' \<mapsto> (X_predict, X_predict),
      ''learn_predict'' \<mapsto> (X_learn, X_predict)]"

definition example_gp :: "(nat, mat) reggp" where
  "example_gp = \<lparr>self_y = [3, 9], self_cov = example_cov, self_mean = example_mean\<rparr>"

definition indefinite_gp :: "(nat, mat) reggp" where
  "indefinite_gp =
     \<lparr>self_y = [3],
      self_cov = linear_cov (- 1) False [''learn'' \<mapsto> ([[1]], [[1]])],
      self_mean = offset_mean 1 False [''learn'' \<mapsto> 1]\<rparr>"

definition fixed_gp :: "(nat, mat) reggp" where
  "fixed_gp = example_gp\<lparr>self_cov := linear_cov 1 True (func_bound example_cov),
                          self_mean := offset_mean 1 True (func_bound example_mean)\<rparr>"

definition one_free_gp :: "(nat, mat) reggp" where
  "one_free_gp = example_gp\<lparr>self_mean := offset_mean 1 True (func_bound example_mean)\<rparr>"

definition unbound_gp :: "(nat, mat) reggp" where
  "unbound_gp = example_gp\<lparr>self_cov := unset_data ''learn_predict'' example_cov\<rparr>"

definition probe_scalar :: "(nat, mat) optimizer" where
  "probe_scalar v g s = Inl (ExternalError ''maximize_scalar'')"

definition probe_array :: "(nat, mat) optimizer" where
  "probe_array v g s = Inl (ExternalError ''maximize_array'')"

definition stub_env :: "unit estimate_env" where
  "stub_env =
     \<lparr>gower_normalization = (\<lambda>K. Inr K),
      stdnorm_call = (\<lambda>G. Inr ()),
      qs_decomposition = (\<lambda>G. Inr ([G, G], [[1], [1]])),
      qs_decomposition_from_K = (\<lambda>K. case K of None \<Rightarrow> Inl ''K is None''
                                   | Some k \<Rightarrow> Inr ([k, k], [[1], [1]])),
      BernoulliEP = (\<lambda>outcomes covariate Q0 Q1 S0. Inr ()),
      optimize = (\<lambda>ep. Inr ep),
      heritability = (\<lambda>ep. 1 / 2)\<rparr>"

section \<open>Helper lemmas\<close>

lemma bindE_Inl [simp]: "bindE (Inl e) f = Inl e"
  by (simp add: bindE_def)

lemma bindE_Inr [simp]: "bindE (Inr x) f = f x"
  by (simp add: bindE_def)

lemma bindE_eq_Inr: "bindE m f = Inr y \<longleftrightarrow> (\<exists>x. m = Inr x \<and> f x = Inr y)"
  by (cases m) simp_all

lemma mapE_Inr_length: "mapE f xs = Inr ys \<Longrightarrow> length ys = length xs"
  by (induction xs arbitrary: ys) (auto simp: bindE_eq_Inr)

lemma mapE_Inr_nth: "mapE f xs = Inr ys \<Longrightarrow> i < length xs \<Longrightarrow> f (xs ! i) = Inr (ys ! i)"
proof (induction xs arbitrary: ys i)
  case Nil
  then show ?case by simp
next
  case (Cons x xs)
  then obtain z zs where z: "f x = Inr z" and zs: "mapE f xs = Inr zs" and ys: "ys = z # zs"
    by (auto simp: bindE_eq_Inr)
  show ?case
  proof (cases i)
    case 0
    then show ?thesis using z ys by simp
  next
    case (Suc k)
    then show ?thesis using Cons.IH [OF zs, of k] Cons.prems(2) ys by simp
  qed
qed

lemma inference_Kim_eq: "inference_Kim np s = gp_Kim np s"
  by (simp add: inference_Kim_def gp_Kim_def)

lemma inference_lml_eq: "inference_lml np s = gp_lml np s"
  by (simp add: inference_lml_def gp_lml_def inference_Kim_eq)

lemma inference_lml_gradient_mean_eq: "inference_lml_gradient_mean np s = gp_lml_gradient_mean np s"
  by (simp add: inference_lml_gradient_mean_def gp_lml_gradient_mean_def inference_Kim_eq)

lemma inference_lml_gradient_cov_eq: "inference_lml_gradient_cov np s = gp_lml_gradient_cov np s"
  by (simp add: inference_lml_gradient_cov_def gp_lml_gradient_cov_def inference_Kim_eq)

lemma inference_lml_gradient_eq: "inference_lml_gradient np s = gp_lml_gradient np s"
  by (simp add: inference_lml_gradient_def gp_lml_gradient_def
      inference_lml_gradient_mean_eq inference_lml_gradient_cov_eq)

lemma inference_variables_eq: "inference_variables s = gp_variables s"
  by (simp add: inference_variables_def gp_variables_def)

lemma length_gp_variables:
  "length (gp_variables s) =
     length (select False (variables (self_mean s))) + length (select False (variables (self_cov s)))"
  by (simp add: gp_variables_def merge_variables_def Let_def)

lemma gp_Kim_Inr:
  assumes "data (self_mean s) ''learn'' = Inr hm"
    and "data (self_cov s) ''learn'' = Inr hK"
    and "arr_sub (self_y s) (hvalue hm) = Inr ym"
  shows "gp_Kim np s = solve np (hvalue hK) ym"
  using assms by (simp add: gp_Kim_def)

lemmas example_defs = example_gp_def example_cov_def example_mean_def X_learn_def X_predict_def
  linear_cov_def linear_kernel_def offset_mean_def diag_linalg_def

lemmas array_defs = data_def arr_sub_def arr_add_def broadcast_def inner_def dot_def mat_dot_def
  ncols_def index_def select_def variables_def

lemma upt2: "[0..<2] = [0, 1]"
  by (simp add: upt_rec)

lemma diagonal2 [simp]: "diagonal [[a, b], [c, d]] = [a, d]"
  by (simp add: diagonal_def ncols_def upt2)

lemma example_learn_mean:
  "data (self_mean example_gp) ''learn'' = Inr \<lparr>raw = 2, hvalue = [1, 1], hgradient = [[1, 1]]\<rparr>"
  by (simp add: example_defs array_defs numeral_2_eq_2)

lemma example_learn_cov:
  "data (self_cov example_gp) ''learn'' =
     Inr \<lparr>raw = (X_learn, X_learn), hvalue = [[1, 0], [0, 4]], hgradient = [[[1, 0], [0, 4]]]\<rparr>"
  by (simp add: example_defs array_defs)

lemma example_Kim: "gp_Kim diag_linalg example_gp = Inr [2, 2]"
  by (simp add: gp_Kim_def example_learn_mean example_learn_cov)
     (simp add: example_defs array_defs upt2)

lemma diagonal1 [simp]: "diagonal [[a]] = [a]"
  by (simp add: diagonal_def ncols_def)

lemma indefinite_learn_mean:
  "data (self_mean indefinite_gp) ''learn'' = Inr \<lparr>raw = 1, hvalue = [1], hgradient = [[1]]\<rparr>"
  by (simp add: indefinite_gp_def example_defs array_defs)

lemma indefinite_learn_cov:
  "data (self_cov indefinite_gp) ''learn'' =
     Inr \<lparr>raw = ([[1]], [[1]]), hvalue = [[- 1]], hgradient = [[[- 1]]]\<rparr>"
  by (simp add: indefinite_gp_def example_defs array_defs)

lemma nth_upt0: "j < n \<Longrightarrow> [0..<n] ! j = j"
  by simp

lemma gp_lml_gradient_cov_length:
  assumes "gp_lml_gradient_cov np s = Inr gc"
  shows "length gc = length (select False (variables (self_cov s)))"
  using assms
  by (auto simp: gp_lml_gradient_cov_def Let_def bindE_eq_Inr dest!: mapE_Inr_length)


lemma gp_lml_gradient_cov_nth:
  assumes gc: "gp_lml_gradient_cov np s = Inr gc"
    and j: "j < length (select False (variables (self_cov s)))"
  shows "\<exists>hK Kiym dK KidK.
           data (self_cov s) ''learn'' = Inr hK \<and> gp_Kim np s = Inr Kiym
         \<and> index (hgradient hK) j = Inr dK
         \<and> solve_mat np (hvalue hK) dK = Inr KidK
         \<and> list_all (\<lambda>r. length r = length Kiym) dK \<and> length dK = length Kiym
         \<and> gc ! j = (- sum_list (diagonal KidK) + inner Kiym (map (\<lambda>r. inner r Kiym) dK)) / 2"
proof -
  let ?n = "length (select False (variables (self_cov s)))"
  let ?f = "\<lambda>hK Kiym i.
          bindE (data (self_cov s) ''learn'') (\<lambda>h.
          bindE (index (hgradient h) i) (\<lambda>dK.
          bindE (solve_mat np (hvalue hK) dK) (\<lambda>KidK.
          bindE (mat_dot dK Kiym) (\<lambda>dKKiym.
          bindE (dot Kiym dKKiym) (\<lambda>q.
            Inr (- sum_list (diagonal KidK) + q))))))"
  from gc obtain hK Kiym g where hK: "data (self_cov s) ''learn'' = Inr hK"
    and kim: "gp_Kim np s = Inr Kiym"
    and g: "mapE (?f hK Kiym) [0..<?n] = Inr g"
    and gc_eq: "gc = map (\<lambda>gi. gi / 2) g"
    by (auto simp: gp_lml_gradient_cov_def Let_def bindE_eq_Inr)
  have len: "length g = ?n"
    using mapE_Inr_length [OF g] by simp
  have "?f hK Kiym ([0..<?n] ! j) = Inr (g ! j)"
    using mapE_Inr_nth [OF g, of j] j by simp
  then have step: "?f hK Kiym j = Inr (g ! j)"
    using j by simp
  then obtain dK KidK w q where dK: "index (hgradient hK) j = Inr dK"
    and KidK: "solve_mat np (hvalue hK) dK = Inr KidK"
    and w: "mat_dot dK Kiym = Inr w"
    and q: "dot Kiym w = Inr q"
    and gj: "g ! j = - sum_list (diagonal KidK) + q"
    using hK by (auto simp: bindE_eq_Inr)
  from w have shape: "list_all (\<lambda>r. length r = length Kiym) dK"
    and w_eq: "w = map (\<lambda>r. inner r Kiym) dK"
    by (auto simp: mat_dot_def split: if_splits)
  from q w_eq have rows: "length dK = length Kiym" and q_eq: "q = inner Kiym w"
    by (auto simp: dot_def split: if_splits)
  have "gc ! j = g ! j / 2"
    using gc_eq len j by simp
  with gj q_eq w_eq hK kim dK KidK shape rows show ?thesis
    by simp
qed

lemma example_gradient_cov: "gp_lml_gradient_cov diag_linalg example_gp = Inr [9]"
  by (simp add: gp_lml_gradient_cov_def example_Kim example_learn_cov)
     (simp add: example_defs array_defs)

lemma example_gradient_mean: "gp_lml_gradient_mean diag_linalg example_gp = Inr [4]"
  by (simp add: gp_lml_gradient_mean_def example_Kim example_learn_mean)
     (simp add: example_defs array_defs)

lemma example_gradient: "gp_lml_gradient diag_linalg example_gp = Inr [9, 4]"
  by (simp add: gp_lml_gradient_def example_gradient_cov example_gradient_mean)

lemma inner_nth:
  assumes "length a = length b"
  shows "inner a b = sum_list (map (\<lambda>i. a ! i * b ! i) [0..<length b])"
proof -
  have "map2 (\<lambda>x y. x * y) a b = map (\<lambda>i. a ! i * b ! i) [0..<length b]"
    using assms by (intro nth_equalityI) simp_all
  then show ?thesis by (simp add: inner_def)
qed

lemma inner_column:
  "inner (map f [0..<length b]) b = sum_list (map (\<lambda>i. f i * b ! i) [0..<length b])"
proof -
  have "map (\<lambda>i. map f [0..<length b] ! i * b ! i) [0..<length b]
      = map (\<lambda>i. f i * b ! i) [0..<length b]"
    by (rule map_cong [OF refl]) simp
  then have "sum_list (map (\<lambda>i. map f [0..<length b] ! i * b ! i) [0..<length b])
      = sum_list (map (\<lambda>i. f i * b ! i) [0..<length b])"
    by (rule arg_cong)
  moreover have "inner (map f [0..<length b]) b
      = sum_list (map (\<lambda>i. map f [0..<length b] ! i * b ! i) [0..<length b])"
    by (rule inner_nth) simp
  ultimately show ?thesis by (simp only:)
qed

lemma transpose_valid_cross:
  assumes "valid_cross K Kiym m_p"
  shows "transpose K = map (\<lambda>j. map (\<lambda>i. K ! i ! j) [0..<length Kiym]) [0..<length m_p]"
proof -
  have rect: "\<And>i. i < length K \<Longrightarrow> length (K ! i) = length m_p"
    using assms by (simp add: valid_cross_def list_all_length)
  have ne: "K = [] \<Longrightarrow> length m_p = 0"
    using assms by (simp add: valid_cross_def)
  have "transpose K = map (\<lambda>j. map (\<lambda>i. K ! i ! j) [0..<length K]) [0..<length m_p]"
    by (rule transpose_rectangle [OF ne rect])
  then show ?thesis using assms by (simp add: valid_cross_def)
qed

lemma predict_core:
  assumes "valid_cross K Kiym m_p"
  shows "bindE (mat_dot (transpose K) Kiym) (arr_add m_p) = Inr (posterior_mean m_p K Kiym)"
proof -
  let ?T = "map (\<lambda>j. map (\<lambda>i. K ! i ! j) [0..<length Kiym]) [0..<length m_p]"
  have T: "transpose K = ?T"
    by (rule transpose_valid_cross [OF assms])
  have dot: "mat_dot ?T Kiym = Inr (map (\<lambda>r. inner r Kiym) ?T)"
    by (simp add: mat_dot_def list_all_iff)
  have add: "arr_add m_p (map (\<lambda>r. inner r Kiym) ?T) = Inr (posterior_mean m_p K Kiym)"
  proof -
    have "map2 (\<lambda>x y. x + y) m_p (map (\<lambda>r. inner r Kiym) ?T) = posterior_mean m_p K Kiym"
      unfolding posterior_mean_def
      by (intro nth_equalityI) (simp_all add: inner_column)
    then show ?thesis by (simp add: arr_add_def broadcast_def)
  qed
  show ?thesis by (simp only: T dot bindE_Inr add)
qed

lemma length_posterior_mean [simp]: "length (posterior_mean m_p K Kiym) = length m_p"
  by (simp add: posterior_mean_def)

lemma data_Inr_raw:
  "data f p = Inr h \<Longrightarrow> func_bound f p = Some (raw h) \<and> hvalue h = func_value f (raw h)
     \<and> hgradient h = func_gradient f (raw h)"
  by (auto simp: data_def split: option.splits)

lemma inference_predict_value:
  assumes "data (self_mean s) ''predict'' = Inr hmp"
    and "gp_Kim np s = Inr Kiym"
    and "data (self_cov s) ''predict'' = Inr hpp"
    and "data (self_cov s) ''learn_predict'' = Inr hlp"
    and "valid_cross (hvalue hlp) Kiym (hvalue hmp)"
  shows "inference_predict np s = (Inr (posterior_mean (hvalue hmp) (hvalue hlp) Kiym), s)"
  using assms by (simp add: inference_predict_def inference_Kim_eq predict_core)

lemma example_predict_mean:
  "data (self_mean example_gp) ''predict'' = Inr \<lparr>raw = 1, hvalue = [1], hgradient = [[1]]\<rparr>"
  by (simp add: example_defs array_defs)

lemma example_predict_cov:
  "data (self_cov example_gp) ''predict'' =
     Inr \<lparr>raw = (X_predict, X_predict), hvalue = [[2]], hgradient = [[[2]]]\<rparr>"
  by (simp add: example_defs array_defs)

lemma example_learn_predict_cov:
  "data (self_cov example_gp) ''learn_predict'' =
     Inr \<lparr>raw = (X_learn, X_predict), hvalue = [[1], [2]], hgradient = [[[1], [2]]]\<rparr>"
  by (simp add: example_defs array_defs)

lemma example_posterior_mean: "posterior_mean [1] [[1], [2]] [2, 2] = [7]"
  by (simp add: posterior_mean_def upt2)

lemma inference_predict_snd: "snd (inference_predict np s) = s"
  by (simp add: inference_predict_def split: sum.splits)

lemma learn_eq: "inference_learn np ms ma s = gp_learn np ms ma s"
proof -
  have v: "inference_value np = gp_lml np"
    by (simp add: fun_eq_iff inference_value_def inference_lml_eq)
  have g: "inference_gradient np = gp_lml_gradient np"
    by (simp add: fun_eq_iff inference_gradient_def inference_lml_gradient_eq)
  show ?thesis
    by (simp add: inference_learn_def gp_learn_def v g inference_variables_eq)
qed

lemma load_info: "load_global ''info'' = Inl (NameError ''info'')"
  by (simp add: load_global_def estimate_globals_def)

lemma bindE_fails:
  assumes "\<And>e. m = Inl e \<Longrightarrow> P e"
    and "\<And>x. m = Inr x \<Longrightarrow> \<exists>e. f x = Inl e \<and> P e"
  shows "\<exists>e. bindE m f = Inl e \<and> P e"
  using assms by (cases m) auto

lemma ext_Inl: "ext r = Inl e \<Longrightarrow> \<exists>m. e = ExternalError m"
  by (cases r) (auto simp: ext_def)

lemma index_Inl: "index xs i = Inl e \<Longrightarrow> e = IndexError"
  by (auto simp: index_def split: if_splits)

lemma array_bool_Inl: "array_bool G = Inl e \<Longrightarrow> e = ValueError"
  by (auto simp: array_bool_def Let_def split: if_splits)

lemma bernoulli_estimate_unfold:
  "bernoulli_estimate env outcomes G K covariate =
     bindE (case K of None \<Rightarrow> Inr None
            | Some k \<Rightarrow> bindE (ext (gower_normalization env k)) (\<lambda>k'. Inr (Some k'))) (\<lambda>K.
     bindE (case G of None \<Rightarrow> Inr None
            | Some g \<Rightarrow> bindE (ext (stdnorm_call env g)) (\<lambda>_. Inr (Some (normalize_markers g)))) (\<lambda>G.
     if G = None \<and> K = None then Inl (Exception ''G, K, and QS cannot be all None.'')
     else
     bindE (case G of None \<Rightarrow> ext (qs_decomposition_from_K env K)
            | Some g \<Rightarrow> bindE (array_bool g) (\<lambda>truth.
                if truth then ext (qs_decomposition env g)
                else ext (qs_decomposition_from_K env K))) (\<lambda>QS.
     bindE (index (fst QS) 0) (\<lambda>Q0.
     bindE (index (fst QS) 1) (\<lambda>Q1.
     bindE (index (snd QS) 0) (\<lambda>S0. Inl (NameError ''info'')))))))"
  by (simp add: bernoulli_estimate_def Let_def load_info split_def cong: if_cong)

lemma stub_from_K:
  "bernoulli_estimate stub_env [1, 0] None (Some [[1]]) None = Inl (NameError ''info'')"
  by (simp add: bernoulli_estimate_unfold stub_env_def ext_def index_def)

lemma array_bool_big:
  assumes "2 \<le> length (concat G)"
  shows "array_bool G = Inl ValueError"
proof -
  have "length (concat G) \<noteq> 0" "length (concat G) \<noteq> 1"
    using assms by linarith+
  then show ?thesis
    unfolding array_bool_def Let_def by (simp only: if_False)
qed

lemma stub_from_G:
  "bernoulli_estimate stub_env [1, 0] (Some [[1, 2], [3, 4]]) None None = Inl ValueError"
proof -
  have "length (concat (normalize_markers [[1, 2], [3, 4]])) = 4"
    by (simp add: normalize_markers_def Let_def mean0_def std0_def ncols_def upt2 column_def)
  then have "2 \<le> length (concat (normalize_markers [[1, 2], [3, 4]]))"
    by simp
  then have "array_bool (normalize_markers [[1, 2], [3, 4]]) = Inl ValueError"
    by (rule array_bool_big)
  then show ?thesis
    by (simp add: bernoulli_estimate_unfold stub_env_def ext_def)
qed

lemma unbound_learn_predict:
  "data (self_cov unbound_gp) ''learn_predict'' = Inl (MissingData ''learn_predict'')"
  by (simp add: unbound_gp_def data_def unset_data_def)

lemma inner_sum:
  assumes "length a = n" "length b = n"
  shows "inner a b = (\<Sum>k = 0..<n. a ! k * b ! k)"
  using assms inner_nth [of a b] by (simp add: interv_sum_list_conv_sum_set_nat)

lemma left_inverse_apply:
  assumes inv: "left_inverse Ki K"
    and dot: "mat_dot K x = Inr b"
    and len: "length x = length K"
  shows "map (\<lambda>r. inner r b) Ki = x"
proof (rule nth_equalityI)
  let ?n = "length K"
  have rowsK: "\<And>k. k < ?n \<Longrightarrow> length (K ! k) = ?n"
    and rowsKi: "\<And>i. i < length Ki \<Longrightarrow> length (Ki ! i) = ?n"
    and prod: "mat_mul Ki K = identity ?n"
    using inv by (simp_all add: left_inverse_def list_all_length)
  have lenKi: "length Ki = ?n"
    using arg_cong [OF prod, of length] by (simp add: mat_mul_def identity_def)
  show "length (map (\<lambda>r. inner r b) Ki) = length x"
    using lenKi len by simp
  have b: "b = map (\<lambda>r. inner r x) K"
    using dot by (simp add: mat_dot_def split: if_splits)
  fix i
  assume "i < length (map (\<lambda>r. inner r b) Ki)"
  then have i: "i < ?n" using lenKi by simp
  then have pos: "K \<noteq> []" by auto
  have nc: "ncols K = ?n"
    using pos rowsK [of 0] by (simp add: ncols_def hd_conv_nth)
  have entry: "(\<Sum>k = 0..<?n. Ki ! i ! k * K ! k ! j) = (if i = j then 1 else 0)" if "j < ?n" for j
  proof -
    have "mat_mul Ki K ! i ! j = (\<Sum>k = 0..<?n. Ki ! i ! k * K ! k ! j)"
      using i that lenKi nc by (simp add: mat_mul_def interv_sum_list_conv_sum_set_nat)
    moreover have "identity ?n ! i ! j = (if i = j then 1 else 0)"
      using i that by (simp add: identity_def)
    ultimately show ?thesis using prod by simp
  qed
  have "inner (Ki ! i) b = (\<Sum>k = 0..<?n. Ki ! i ! k * b ! k)"
    using rowsKi [of i] i lenKi b by (intro inner_sum) simp_all
  also have "\<dots> = (\<Sum>k = 0..<?n. Ki ! i ! k * (\<Sum>j = 0..<?n. K ! k ! j * x ! j))"
    using len rowsK by (intro sum.cong refl) (simp add: b inner_sum [where n = ?n])
  also have "\<dots> = (\<Sum>k = 0..<?n. \<Sum>j = 0..<?n. Ki ! i ! k * K ! k ! j * x ! j)"
    by (simp add: sum_distrib_left mult.assoc)
  also have "\<dots> = (\<Sum>j = 0..<?n. \<Sum>k = 0..<?n. Ki ! i ! k * K ! k ! j * x ! j)"
    by (rule sum.swap)
  also have "\<dots> = (\<Sum>j = 0..<?n. (\<Sum>k = 0..<?n. Ki ! i ! k * K ! k ! j) * x ! j)"
    by (simp add: sum_distrib_right)
  also have "\<dots> = (\<Sum>j = 0..<?n. (if i = j then 1 else 0) * x ! j)"
    by (intro sum.cong refl) (simp add: entry)
  also have "\<dots> = x ! i"
    using i by (simp add: if_distrib [where f = "\<lambda>c. c * _"] sum.delta cong: if_cong)
  finally show "map (\<lambda>r. inner r b) Ki ! i = x ! i"
    using i lenKi by simp
qed

lemma det2: "det [[a, b], [c, d]] = a * d - b * c"
  by (simp add: upt2)

lemma left_inverse_entry:
  assumes inv: "left_inverse Ki K" and i: "i < length K" and j: "j < length K"
  shows "length Ki = length K"
    and "(\<Sum>k = 0..<length K. Ki ! i ! k * K ! k ! j) = (if i = j then 1 else 0)"
proof -
  let ?n = "length K"
  have rowsK: "\<And>k. k < ?n \<Longrightarrow> length (K ! k) = ?n"
    and prod: "mat_mul Ki K = identity ?n"
    using inv by (simp_all add: left_inverse_def list_all_length)
  show lenKi: "length Ki = ?n"
    using arg_cong [OF prod, of length] by (simp add: mat_mul_def identity_def)
  have pos: "K \<noteq> []" using i by auto
  have nc: "ncols K = ?n"
    using pos rowsK [of 0] by (simp add: ncols_def hd_conv_nth)
  have "mat_mul Ki K ! i ! j = (\<Sum>k = 0..<?n. Ki ! i ! k * K ! k ! j)"
    using i j lenKi nc by (simp add: mat_mul_def interv_sum_list_conv_sum_set_nat)
  moreover have "identity ?n ! i ! j = (if i = j then 1 else 0)"
    using i j by (simp add: identity_def)
  ultimately show "(\<Sum>k = 0..<?n. Ki ! i ! k * K ! k ! j) = (if i = j then 1 else 0)"
    using prod by simp
qed

lemma left_inverse_solve:
  assumes inv: "left_inverse Ki K"
    and prod: "mat_mul K X = dK"
    and rows: "length X = length K"
    and rect: "list_all (\<lambda>r. length r = ncols X) X"
  shows "mat_mul Ki dK = X"
proof (cases "K = []")
  case True
  then have "Ki = []"
    using inv by (simp add: left_inverse_def mat_mul_def identity_def)
  then show ?thesis using True rows by (simp add: mat_mul_def)
next
  case False
  let ?n = "length K" and ?m = "ncols X"
  have n: "0 < ?n" using False by simp
  have lenKi: "length Ki = ?n"
    using left_inverse_entry(1) [OF inv n n] .
  have lendK: "length dK = ?n"
    using prod by (auto simp: mat_mul_def)
  have rowdK: "dK ! k = map (\<lambda>j. \<Sum>l = 0..<?n. K ! k ! l * X ! l ! j) [0..<?m]" if "k < ?n" for k
    using that prod rows by (auto simp: mat_mul_def interv_sum_list_conv_sum_set_nat)
  have ncdK: "ncols dK = ?m"
    using lendK n rowdK [of 0] by (cases dK) (simp_all add: ncols_def)
  have rowX: "length (X ! i) = ?m" if "i < ?n" for i
    using that rect rows by (simp add: list_all_length)
  show ?thesis
  proof (rule nth_equalityI)
    show "length (mat_mul Ki dK) = length X"
      using lenKi rows by (simp add: mat_mul_def)
    fix i
    assume "i < length (mat_mul Ki dK)"
    then have i: "i < ?n" using lenKi by (simp add: mat_mul_def)
    have row: "mat_mul Ki dK ! i = map (\<lambda>j. \<Sum>k = 0..<?n. Ki ! i ! k * dK ! k ! j) [0..<?m]"
      using i lenKi lendK ncdK by (simp add: mat_mul_def interv_sum_list_conv_sum_set_nat)
    have "(\<Sum>k = 0..<?n. Ki ! i ! k * dK ! k ! j) = X ! i ! j" if j: "j < ?m" for j
    proof -
      have "(\<Sum>k = 0..<?n. Ki ! i ! k * dK ! k ! j)
          = (\<Sum>k = 0..<?n. Ki ! i ! k * (\<Sum>l = 0..<?n. K ! k ! l * X ! l ! j))"
        using j by (intro sum.cong refl) (simp add: rowdK)
      also have "\<dots> = (\<Sum>k = 0..<?n. \<Sum>l = 0..<?n. Ki ! i ! k * K ! k ! l * X ! l ! j)"
        by (simp add: sum_distrib_left mult.assoc)
      also have "\<dots> = (\<Sum>l = 0..<?n. \<Sum>k = 0..<?n. Ki ! i ! k * K ! k ! l * X ! l ! j)"
        by (rule sum.swap)
      also have "\<dots> = (\<Sum>l = 0..<?n. (\<Sum>k = 0..<?n. Ki ! i ! k * K ! k ! l) * X ! l ! j)"
        by (simp add: sum_distrib_right)
      also have "\<dots> = (\<Sum>l = 0..<?n. (if i = l then 1 else 0) * X ! l ! j)"
        using i by (intro sum.cong refl) (simp add: left_inverse_entry(2) [OF inv])
      also have "\<dots> = X ! i ! j"
        using i by (simp add: if_distrib [where f = "\<lambda>c. c * _"] sum.delta cong: if_cong)
      finally show ?thesis .
    qed
    then have "map (\<lambda>j. \<Sum>k = 0..<?n. Ki ! i ! k * dK ! k ! j) [0..<?m] = X ! i"
      using rowX [OF i] by (intro nth_equalityI) simp_all
    then show "mat_mul Ki dK ! i = X ! i"
      using row by simp
  qed
qed

lemma bind_call_set_data: "bind_call set_data_params 2 [''purpose''] = Inl TypeError"
  by (simp add: bind_call_def set_data_params_def)

lemma bind_call_one_argument: "bind_call set_data_params 1 [''purpose''] = Inr ()"
  by (simp add: bind_call_def set_data_params_def)

lemma gp_predict_state: "snd (gp_predict np s) = s"
  by (simp add: gp_predict_def bind_call_set_data split: sum.splits)

lemma gp_predict_raises: "\<exists>e. fst (gp_predict np s) = Inl e"
  by (simp add: gp_predict_def bind_call_set_data split: sum.splits)

lemma gp_predict_TypeError:
  assumes "data (self_mean s) ''predict'' = Inr hmp"
    and "gp_Kim np s = Inr Kiym"
    and "data (self_cov s) ''predict'' = Inr hpp"
    and "data (self_cov s) ''learn'' = Inr hl"
  shows "gp_predict np s = (Inl TypeError, s)"
  using assms by (simp add: gp_predict_def bind_call_set_data)

lemma inference_predict_missing:
  assumes "data (self_mean s) ''predict'' = Inr hmp"
    and "gp_Kim np s = Inr Kiym"
    and "data (self_cov s) ''predict'' = Inr hpp"
    and "data (self_cov s) ''learn_predict'' = Inl e"
  shows "inference_predict np s = (Inl e, s)"
  using assms by (simp add: inference_predict_def inference_Kim_eq)

lemma data_unset_data_other:
  "p \<noteq> q \<Longrightarrow> data (unset_data q f) p = data f p"
  by (simp add: data_def unset_data_def split: option.splits)

lemma unbound_learn_cov:
  "data (self_cov unbound_gp) ''learn'' =
     Inr \<lparr>raw = (X_learn, X_learn), hvalue = [[1, 0], [0, 4]], hgradient = [[[1, 0], [0, 4]]]\<rparr>"
  using example_learn_cov by (simp add: unbound_gp_def example_gp_def data_unset_data_other)

lemma unbound_predict_cov:
  "data (self_cov unbound_gp) ''predict'' =
     Inr \<lparr>raw = (X_predict, X_predict), hvalue = [[2]], hgradient = [[[2]]]\<rparr>"
  using example_predict_cov by (simp add: unbound_gp_def example_gp_def data_unset_data_other)

lemma unbound_predict_mean:
  "data (self_mean unbound_gp) ''predict'' = Inr \<lparr>raw = 1, hvalue = [1], hgradient = [[1]]\<rparr>"
  using example_predict_mean by (simp add: unbound_gp_def)

lemma unbound_Kim: "gp_Kim diag_linalg unbound_gp = Inr [2, 2]"
proof -
  have "gp_Kim diag_linalg unbound_gp = gp_Kim diag_linalg example_gp"
    using unbound_learn_cov example_learn_cov
    by (simp add: gp_Kim_def unbound_gp_def)
  then show ?thesis by (simp add: example_Kim)
qed

section \<open>The log marginal likelihood\<close>

text \<open>
  C1. When the learn-purpose data is bound, the single solve
  \<open>Kiym = solve(K, y - m)\<close> succeeds with a result as long as \<open>y - m\<close>, and
  \<open>slogdet(K)\<close> reports the sign +1 (as it does for a symmetric positive-definite
  \<open>K\<close>) with log-determinant \<open>logdet\<close>, then \<open>lml()\<close> of both classes returns exactly
  \<open>- (logdet + (y - m) . Kiym + N * log(2 * pi)) / 2\<close>, where \<open>m\<close> and \<open>K\<close> are the
  learn-purpose values of the mean and of the covariance and \<open>N = len(y)\<close>: the
  quadratic form is the inner product of \<open>y - m\<close> with the result of that solve.
  Where numpy keeps its contract (the log-determinant is \<open>log(det K)\<close>, the solve
  satisfies \<open>K . Kiym = y - m\<close>), this is
  \<open>- (log(det K) + (y - m) . Ki . (y - m) + N * log(2 * pi)) / 2\<close> for the inverse
  \<open>Ki\<close> of \<open>K\<close>.
\<close>

theorem lml_formula:
  assumes "data (self_mean s) ''learn'' = Inr hm"
    and "data (self_cov s) ''learn'' = Inr hK"
    and "arr_sub (self_y s) (hvalue hm) = Inr ym"
    and "solve np (hvalue hK) ym = Inr Kiym"
    and "length Kiym = length ym"
    and "slogdet np (hvalue hK) = Inr (1, logdet)"
  shows "gp_lml np s =
           Inr (- (logdet + inner ym Kiym + real (length (self_y s)) * ln (2 * pi)) / 2)
       \<and> inference_lml np s =
           Inr (- (logdet + inner ym Kiym + real (length (self_y s)) * ln (2 * pi)) / 2)
       \<and> (logdet = ln (det (hvalue hK)) \<and> mat_dot (hvalue hK) Kiym = Inr ym
            \<and> left_inverse Ki (hvalue hK) \<longrightarrow>
          gp_lml np s =
            Inr (- (ln (det (hvalue hK)) + inner ym (map (\<lambda>r. inner r ym) Ki)
                    + real (length (self_y s)) * ln (2 * pi)) / 2)
          \<and> inference_lml np s =
            Inr (- (ln (det (hvalue hK)) + inner ym (map (\<lambda>r. inner r ym) Ki)
                    + real (length (self_y s)) * ln (2 * pi)) / 2))"
proof -
  have code: "gp_lml np s =
      Inr (- (logdet + inner ym Kiym + real (length (self_y s)) * ln (2 * pi)) / 2)"
    using assms by (simp add: gp_lml_def gp_Kim_Inr dot_def)
  have "map (\<lambda>r. inner r ym) Ki = Kiym"
    if dot: "mat_dot (hvalue hK) Kiym = Inr ym" and inv: "left_inverse Ki (hvalue hK)"
  proof -
    have "length ym = length (hvalue hK)"
      using dot by (auto simp: mat_dot_def split: if_splits)
    then have "length Kiym = length (hvalue hK)"
      using assms(5) by simp
    then show ?thesis
      by (rule left_inverse_apply [OF inv dot])
  qed
  with code show ?thesis
    by (simp add: inference_lml_eq)
qed

text \<open>
  On \<open>example_gp\<close>: \<open>y - m = [2, 8]\<close>, \<open>K = diag(1, 4)\<close>, \<open>Kiym = [2, 2]\<close>.
\<close>

theorem lml_formula_witness:
  "gp_lml diag_linalg example_gp = Inr (- (ln 4 + 20 + 2 * ln (2 * pi)) / 2)
   \<and> inference_lml diag_linalg example_gp = Inr (- (ln 4 + 20 + 2 * ln (2 * pi)) / 2)
   \<and> gp_lml diag_linalg example_gp =
       Inr (- (ln (det [[1, 0], [0, 4]])
               + inner [2, 8] (map (\<lambda>r. inner r [2, 8]) [[1, 0], [0, 1 / 4]])
               + 2 * ln (2 * pi)) / 2)"
proof -
  have sub: "arr_sub (self_y example_gp) [1, 1] = Inr [2, 8]"
    by (simp add: example_defs array_defs)
  have sol: "solve diag_linalg [[1, 0], [0, 4]] [2, 8] = Inr [2, 2]"
    by (simp add: example_defs array_defs upt2)
  have slog: "slogdet diag_linalg [[1, 0], [0, 4]] = Inr (1, ln 4)"
    by (simp add: example_defs array_defs upt2)
  have len: "length (self_y example_gp) = 2"
    by (simp add: example_defs)
  have d: "det [[1, 0], [0, 4]] = 4"
    by (simp add: det2)
  have dot: "mat_dot [[1, 0], [0, 4]] [2, 2] = Inr [2, 8]"
    by (simp add: array_defs)
  have inv: "left_inverse [[1, 0], [0, 1 / 4]] [[1, 0], [0, 4]]"
    by (simp add: left_inverse_def mat_mul_def identity_def ncols_def upt2)
  from lml_formula [where s = example_gp and np = diag_linalg and ym = "[2, 8]"
      and Kiym = "[2, 2]" and logdet = "ln 4" and Ki = "[[1, 0], [0, 1 / 4]]",
      OF example_learn_mean example_learn_cov]
    sub sol slog len d dot inv
  show ?thesis by (simp add: inner_def)
qed

text \<open>
  C3. Given the learn-purpose data and \<open>y - m\<close>: when \<open>slogdet(K)\<close> reports a sign
  other than +1, \<open>lml()\<close> of both classes ends in an exception and returns no
  number (the failed assertion, when the solve before it succeeded); when the sign
  is +1 and the solve succeeded with a result as long as \<open>y - m\<close>, it returns.
\<close>

theorem lml_sign_check:
  assumes "data (self_mean s) ''learn'' = Inr hm"
    and "data (self_cov s) ''learn'' = Inr hK"
    and "arr_sub (self_y s) (hvalue hm) = Inr ym"
    and "slogdet np (hvalue hK) = Inr (sg, logdet)"
  shows "(sg \<noteq> 1 \<longrightarrow> (\<exists>e. gp_lml np s = Inl e) \<and> (\<exists>e. inference_lml np s = Inl e))
       \<and> (sg \<noteq> 1 \<and> solve np (hvalue hK) ym = Inr Kiym \<longrightarrow>
            gp_lml np s = Inl AssertionError \<and> inference_lml np s = Inl AssertionError)
       \<and> (sg = 1 \<and> solve np (hvalue hK) ym = Inr Kiym \<and> length Kiym = length ym \<longrightarrow>
            (\<exists>r. gp_lml np s = Inr r) \<and> (\<exists>r. inference_lml np s = Inr r))"
proof -
  have kim: "gp_Kim np s = solve np (hvalue hK) ym"
    using assms by (simp add: gp_Kim_Inr)
  have abort: "\<exists>e. gp_lml np s = Inl e" if "sg \<noteq> 1"
  proof (cases "solve np (hvalue hK) ym")
    case (Inl e)
    then show ?thesis by (simp add: gp_lml_def kim)
  next
    case (Inr x)
    then show ?thesis using assms that by (simp add: gp_lml_def kim)
  qed
  have assertion: "gp_lml np s = Inl AssertionError"
    if "sg \<noteq> 1" "solve np (hvalue hK) ym = Inr Kiym"
    using assms that by (simp add: gp_lml_def kim)
  have returns: "\<exists>r. gp_lml np s = Inr r"
    if "sg = 1" "solve np (hvalue hK) ym = Inr Kiym" "length Kiym = length ym"
  proof -
    have "gp_lml np s =
        Inr (- (logdet + inner ym Kiym + real (length (self_y s)) * ln (2 * pi)) / 2)"
      using assms that by (simp add: gp_lml_def kim dot_def)
    then show ?thesis by blast
  qed
  show ?thesis
    using abort assertion returns by (simp add: inference_lml_eq)
qed

text \<open>
  \<open>indefinite_gp\<close> has \<open>K = [[-1]]\<close>, of sign -1; \<open>example_gp\<close> has sign +1.
\<close>

theorem lml_sign_check_witness:
  "gp_lml diag_linalg indefinite_gp = Inl AssertionError
   \<and> inference_lml diag_linalg indefinite_gp = Inl AssertionError
   \<and> (\<exists>r. gp_lml diag_linalg example_gp = Inr r)
   \<and> (\<exists>r. inference_lml diag_linalg example_gp = Inr r)"
proof -
  have sub1: "arr_sub (self_y indefinite_gp) [1] = Inr [2]"
    by (simp add: indefinite_gp_def array_defs)
  have det1: "slogdet diag_linalg [[- 1]] = Inr (- 1, 0)"
    by (simp add: example_defs array_defs)
  have sol1: "solve diag_linalg [[- 1]] [2] = Inr [- 2]"
    by (simp add: example_defs array_defs)
  have sub2: "arr_sub (self_y example_gp) [1, 1] = Inr [2, 8]"
    by (simp add: example_defs array_defs)
  have sol2: "solve diag_linalg [[1, 0], [0, 4]] [2, 8] = Inr [2, 2]"
    by (simp add: example_defs array_defs)
  have det2: "slogdet diag_linalg [[1, 0], [0, 4]] = Inr (1, ln 4)"
    by (simp add: example_defs array_defs)
  from lml_sign_check [where s = indefinite_gp and np = diag_linalg and ym = "[2]"
      and Kiym = "[- 2]" and sg = "- 1" and logdet = 0,
      OF indefinite_learn_mean indefinite_learn_cov] sub1 det1 sol1
  have a: "gp_lml diag_linalg indefinite_gp = Inl AssertionError
         \<and> inference_lml diag_linalg indefinite_gp = Inl AssertionError"
    by simp
  from lml_sign_check [where s = example_gp and np = diag_linalg and ym = "[2, 8]"
      and Kiym = "[2, 2]" and sg = 1 and logdet = "ln 4",
      OF example_learn_mean example_learn_cov] sub2 det2 sol2
  have b: "(\<exists>r. gp_lml diag_linalg example_gp = Inr r)
         \<and> (\<exists>r. inference_lml diag_linalg example_gp = Inr r)"
    by simp
  from a b show ?thesis by simp
qed

section \<open>The gradient\<close>




text \<open>
  C4. Whenever \<open>lml_gradient()\<close> returns \<open>g\<close>, for every \<open>j\<close> below the number of
  free covariance variables the entry \<open>g[j]\<close> is
  \<open>(- sum(diagonal(solve(K, dK_j))) + Kiym . (dK_j . Kiym)) / 2\<close>, where \<open>dK_j\<close> is
  the \<open>j\<close>-th learn-purpose derivative matrix of the covariance and \<open>Kiym\<close> the
  learn-purpose solve. The trace term is the sum of the diagonal of
  \<open>solve(K, dK_j)\<close>: the linear algebra at hand is \<open>solve\<close> and \<open>slogdet\<close> only,
  and no inverse of \<open>K\<close> is formed. Where the solve keeps its contract
  (\<open>K . solve(K, dK_j) = dK_j\<close>), that sum is the trace of \<open>Ki . dK_j\<close> for the
  inverse \<open>Ki\<close> of \<open>K\<close>.
\<close>

theorem cov_gradient_entry:
  assumes "gp_lml_gradient np s = Inr g"
    and "j < length (select False (variables (self_cov s)))"
  shows "inference_lml_gradient np s = Inr g
       \<and> (\<exists>hK Kiym dK KidK.
           data (self_cov s) ''learn'' = Inr hK \<and> gp_Kim np s = Inr Kiym
         \<and> index (hgradient hK) j = Inr dK
         \<and> solve_mat np (hvalue hK) dK = Inr KidK
         \<and> g ! j = (- sum_list (diagonal KidK) + inner Kiym (map (\<lambda>r. inner r Kiym) dK)) / 2
         \<and> (mat_mul (hvalue hK) KidK = dK \<and> length KidK = length (hvalue hK)
              \<and> list_all (\<lambda>r. length r = ncols KidK) KidK \<and> left_inverse Ki (hvalue hK) \<longrightarrow>
            g ! j = (- sum_list (diagonal (mat_mul Ki dK))
                     + inner Kiym (map (\<lambda>r. inner r Kiym) dK)) / 2))"
proof -
  from assms(1) obtain gc gm where gc: "gp_lml_gradient_cov np s = Inr gc"
    and g: "g = gc @ gm"
    by (auto simp: gp_lml_gradient_def bindE_eq_Inr)
  have "j < length gc"
    using gp_lml_gradient_cov_length [OF gc] assms(2) by simp
  then have gj: "g ! j = gc ! j"
    using g by (simp add: nth_append)
  from gp_lml_gradient_cov_nth [OF gc assms(2)]
  obtain hK Kiym dK KidK where hK: "data (self_cov s) ''learn'' = Inr hK"
    and kim: "gp_Kim np s = Inr Kiym"
    and dK: "index (hgradient hK) j = Inr dK"
    and KidK: "solve_mat np (hvalue hK) dK = Inr KidK"
    and entry: "gc ! j = (- sum_list (diagonal KidK) + inner Kiym (map (\<lambda>r. inner r Kiym) dK)) / 2"
    by blast
  have "mat_mul Ki dK = KidK"
    if "mat_mul (hvalue hK) KidK = dK" "length KidK = length (hvalue hK)"
      "list_all (\<lambda>r. length r = ncols KidK) KidK" "left_inverse Ki (hvalue hK)"
    using left_inverse_solve [OF that(4) that(1) that(2) that(3)] .
  with hK kim dK KidK entry gj assms(1) show ?thesis
    by (auto simp: inference_lml_gradient_eq)
qed

theorem cov_gradient_entry_witness:
  "inference_lml_gradient diag_linalg example_gp = Inr [9, 4]
   \<and> [9, 4] ! 0 =
       (- sum_list (diagonal (mat_mul [[1, 0], [0, 1 / 4]] [[1, 0], [0, 4]]))
        + inner [2, 2] (map (\<lambda>r. inner r [2, 2]) [[1, 0], [0, 4]])) / (2 :: real)"
proof -
  have n: "0 < length (select False (variables (self_cov example_gp)))"
    by (simp add: example_defs array_defs)
  from cov_gradient_entry [OF example_gradient n, where Ki = "[[1, 0], [0, 1 / 4]]"]
  obtain hK Kiym dK KidK where inf: "inference_lml_gradient diag_linalg example_gp = Inr [9, 4]"
    and hK: "data (self_cov example_gp) ''learn'' = Inr hK"
    and kim: "gp_Kim diag_linalg example_gp = Inr Kiym"
    and dK: "index (hgradient hK) 0 = Inr dK"
    and KidK: "solve_mat diag_linalg (hvalue hK) dK = Inr KidK"
    and math: "mat_mul (hvalue hK) KidK = dK \<and> length KidK = length (hvalue hK)
              \<and> list_all (\<lambda>r. length r = ncols KidK) KidK
              \<and> left_inverse [[1, 0], [0, 1 / 4]] (hvalue hK) \<longrightarrow>
            [9, 4] ! 0 = (- sum_list (diagonal (mat_mul [[1, 0], [0, 1 / 4]] dK))
                     + inner Kiym (map (\<lambda>r. inner r Kiym) dK)) / 2"
    by blast
  have hK_eq: "hvalue hK = [[1, 0], [0, 4]]" "hgradient hK = [[[1, 0], [0, 4]]]"
    using hK example_learn_cov by auto
  have Kiym_eq: "Kiym = [2, 2]"
    using kim example_Kim by simp
  have dK_eq: "dK = [[1, 0], [0, 4]]"
    using dK hK_eq by (simp add: index_def)
  have KidK_eq: "KidK = [[1, 0], [0, 1]]"
    using KidK hK_eq dK_eq by (simp add: example_defs array_defs)
  have prem: "mat_mul (hvalue hK) KidK = dK \<and> length KidK = length (hvalue hK)
              \<and> list_all (\<lambda>r. length r = ncols KidK) KidK
              \<and> left_inverse [[1, 0], [0, 1 / 4]] (hvalue hK)"
    by (simp add: hK_eq KidK_eq dK_eq left_inverse_def mat_mul_def identity_def ncols_def upt2)
  from math prem inf show ?thesis
    by (simp only: dK_eq Kiym_eq)
qed

section \<open>Prediction\<close>

text \<open>
  C5. For a valid binding (the learn_predict-purpose covariance has one row per
  entry of \<open>Kiym\<close> and one column per entry of the predict-purpose mean),
  \<open>predict()\<close> of the inference class returns
  \<open>m_predict + K_learn_predict.T . Kiym\<close>, of the length of the predict-purpose
  mean vector, and changes nothing. \<open>predict()\<close> of the gp class does not: it
  calls \<open>cov.set_data\<close> with two positional data arguments where \<open>set_data\<close>
  takes one, the call ends in a \<open>TypeError\<close>, and nothing is returned.
\<close>

theorem predict_formula:
  assumes "data (self_mean s) ''predict'' = Inr hmp"
    and "gp_Kim np s = Inr Kiym"
    and "data (self_cov s) ''predict'' = Inr hpp"
    and "data (self_cov s) ''learn'' = Inr hl"
    and "data (self_cov s) ''learn_predict'' = Inr hlp"
    and "valid_cross (hvalue hlp) Kiym (hvalue hmp)"
  shows "inference_predict np s = (Inr (posterior_mean (hvalue hmp) (hvalue hlp) Kiym), s)
       \<and> length (posterior_mean (hvalue hmp) (hvalue hlp) Kiym) = length (hvalue hmp)
       \<and> gp_predict np s = (Inl TypeError, s)"
  using inference_predict_value [OF assms(1,2,3,5,6)] gp_predict_TypeError [OF assms(1,2,3,4)]
  by simp

text \<open>
  On \<open>example_gp\<close>: \<open>m_predict = [1]\<close>, \<open>K_learn_predict = [[1], [2]]\<close>,
  \<open>Kiym = [2, 2]\<close>; the inference class predicts \<open>[7]\<close>, the gp class raises.
\<close>

theorem predict_formula_witness:
  "inference_predict diag_linalg example_gp = (Inr [7], example_gp)
   \<and> length [7::real] = length [1::real]
   \<and> gp_predict diag_linalg example_gp = (Inl TypeError, example_gp)"
proof -
  have v: "valid_cross [[1], [2]] [2, 2] [1]"
    by (simp add: valid_cross_def)
  from predict_formula [where s = example_gp and np = diag_linalg, OF example_predict_mean
      example_Kim example_predict_cov example_learn_cov example_learn_predict_cov] v
  show ?thesis
    by (simp add: example_posterior_mean)
qed

text \<open>
  C8. \<open>predict()\<close> of the inference class changes nothing, so a second call right
  after the first returns what the first returned: for a valid binding, the same
  vector. \<open>predict()\<close> of the gp class changes nothing either and its second call
  ends as its first did, but no call of it returns a vector: with the data of the
  learn and predict purposes bound, both calls end in the \<open>TypeError\<close> of the
  \<open>set_data\<close> call.
\<close>

theorem predict_idempotent:
  "snd (inference_predict np s) = s
   \<and> fst (inference_predict np (snd (inference_predict np s))) = fst (inference_predict np s)
   \<and> (data (self_mean s) ''predict'' = Inr hmp \<and> gp_Kim np s = Inr Kiym
        \<and> data (self_cov s) ''predict'' = Inr hpp
        \<and> data (self_cov s) ''learn_predict'' = Inr hlp
        \<and> valid_cross (hvalue hlp) Kiym (hvalue hmp) \<longrightarrow>
        fst (inference_predict np (snd (inference_predict np s)))
          = Inr (posterior_mean (hvalue hmp) (hvalue hlp) Kiym))
   \<and> snd (gp_predict np s) = s
   \<and> fst (gp_predict np (snd (gp_predict np s))) = fst (gp_predict np s)
   \<and> (\<exists>e. fst (gp_predict np s) = Inl e)
   \<and> (data (self_mean s) ''predict'' = Inr hmp \<and> gp_Kim np s = Inr Kiym
        \<and> data (self_cov s) ''predict'' = Inr hpp \<and> data (self_cov s) ''learn'' = Inr hl \<longrightarrow>
        fst (gp_predict np (snd (gp_predict np s))) = Inl TypeError)"
proof -
  have "fst (inference_predict np s) = Inr (posterior_mean (hvalue hmp) (hvalue hlp) Kiym)"
    if "data (self_mean s) ''predict'' = Inr hmp" "gp_Kim np s = Inr Kiym"
      "data (self_cov s) ''predict'' = Inr hpp" "data (self_cov s) ''learn_predict'' = Inr hlp"
      "valid_cross (hvalue hlp) Kiym (hvalue hmp)"
    using inference_predict_value [OF that] by simp
  moreover have "fst (gp_predict np s) = Inl TypeError"
    if "data (self_mean s) ''predict'' = Inr hmp" "gp_Kim np s = Inr Kiym"
      "data (self_cov s) ''predict'' = Inr hpp" "data (self_cov s) ''learn'' = Inr hl"
    using gp_predict_TypeError [OF that] by simp
  ultimately show ?thesis
    using gp_predict_raises [of np s]
    by (simp add: inference_predict_snd gp_predict_state)
qed

theorem predict_idempotent_witness:
  "fst (inference_predict diag_linalg (snd (inference_predict diag_linalg example_gp))) = Inr [7]
   \<and> fst (inference_predict diag_linalg example_gp) = Inr [7]
   \<and> fst (gp_predict diag_linalg (snd (gp_predict diag_linalg example_gp))) = Inl TypeError
   \<and> fst (gp_predict diag_linalg example_gp) = Inl TypeError"
proof -
  have v: "valid_cross [[1], [2]] [2, 2] [1]"
    by (simp add: valid_cross_def)
  from predict_idempotent [of diag_linalg example_gp
      "\<lparr>raw = 1, hvalue = [1], hgradient = [[1]]\<rparr>" "[2, 2]"
      "\<lparr>raw = (X_predict, X_predict), hvalue = [[2]], hgradient = [[[2]]]\<rparr>"
      "\<lparr>raw = (X_learn, X_predict), hvalue = [[1], [2]], hgradient = [[[1], [2]]]\<rparr>"
      "\<lparr>raw = (X_learn, X_learn), hvalue = [[1, 0], [0, 4]], hgradient = [[[1, 0], [0, 4]]]\<rparr>"]
    example_predict_mean example_Kim example_predict_cov example_learn_predict_cov
    example_learn_cov v
  show ?thesis
    by (auto simp: example_posterior_mean)
qed

section \<open>Learning\<close>

text \<open>
  C6. \<open>learn()\<close> looks at the number of free variables of the merged variable set
  only, in both classes. With none it hands the object back as it is, calls no
  optimizer, and \<open>lml()\<close> afterwards is \<open>lml()\<close> before; with exactly one its
  outcome is that of the scalar maximizer on the objective \<open>(lml, lml_gradient)\<close>;
  with two or more it is that of the multivariate maximizer.
\<close>

theorem learn_dispatch:
  "length (gp_variables s) =
     length (select False (variables (self_mean s))) + length (select False (variables (self_cov s)))
   \<and> inference_variables s = gp_variables s
   \<and> (length (gp_variables s) = 0 \<longrightarrow>
        gp_learn np ms ma s = Inr s \<and> inference_learn np ms ma s = Inr s
        \<and> bindE (gp_learn np ms ma s) (gp_lml np) = gp_lml np s
        \<and> bindE (inference_learn np ms ma s) (inference_lml np) = inference_lml np s)
   \<and> (length (gp_variables s) = 1 \<longrightarrow>
        gp_learn np ms ma s = ms (gp_lml np) (gp_lml_gradient np) s
        \<and> inference_learn np ms ma s = ms (inference_value np) (inference_gradient np) s)
   \<and> (2 \<le> length (gp_variables s) \<longrightarrow>
        gp_learn np ms ma s = ma (gp_lml np) (gp_lml_gradient np) s
        \<and> inference_learn np ms ma s = ma (inference_value np) (inference_gradient np) s)"
  by (simp add: length_gp_variables inference_variables_eq gp_learn_def inference_learn_def)

text \<open>
  \<open>fixed_gp\<close> has no free variable, \<open>one_free_gp\<close> one, \<open>example_gp\<close> two.
\<close>

theorem learn_dispatch_witness:
  "gp_learn diag_linalg probe_scalar probe_array fixed_gp = Inr fixed_gp
   \<and> inference_learn diag_linalg probe_scalar probe_array fixed_gp = Inr fixed_gp
   \<and> gp_learn diag_linalg probe_scalar probe_array one_free_gp = Inl (ExternalError ''maximize_scalar'')
   \<and> inference_learn diag_linalg probe_scalar probe_array one_free_gp
       = Inl (ExternalError ''maximize_scalar'')
   \<and> gp_learn diag_linalg probe_scalar probe_array example_gp = Inl (ExternalError ''maximize_array'')
   \<and> inference_learn diag_linalg probe_scalar probe_array example_gp
       = Inl (ExternalError ''maximize_array'')"
proof -
  have n0: "length (gp_variables fixed_gp) = 0"
    by (simp add: length_gp_variables fixed_gp_def example_defs array_defs)
  have n1: "length (gp_variables one_free_gp) = 1"
    by (simp add: length_gp_variables one_free_gp_def example_defs array_defs)
  have n2: "2 \<le> length (gp_variables example_gp)"
    by (simp add: length_gp_variables example_defs array_defs)
  from learn_dispatch [of fixed_gp diag_linalg probe_scalar probe_array] n0
  have a: "gp_learn diag_linalg probe_scalar probe_array fixed_gp = Inr fixed_gp
     \<and> inference_learn diag_linalg probe_scalar probe_array fixed_gp = Inr fixed_gp"
    by simp
  from learn_dispatch [of one_free_gp diag_linalg probe_scalar probe_array] n1
  have b: "gp_learn diag_linalg probe_scalar probe_array one_free_gp
             = Inl (ExternalError ''maximize_scalar'')
     \<and> inference_learn diag_linalg probe_scalar probe_array one_free_gp
             = Inl (ExternalError ''maximize_scalar'')"
    by (simp add: probe_scalar_def)
  from learn_dispatch [of example_gp diag_linalg probe_scalar probe_array] n2
  have c: "gp_learn diag_linalg probe_scalar probe_array example_gp
             = Inl (ExternalError ''maximize_array'')
     \<and> inference_learn diag_linalg probe_scalar probe_array example_gp
             = Inl (ExternalError ''maximize_array'')"
    by (simp add: probe_array_def)
  from a b c show ?thesis by simp
qed

section \<open>Construction\<close>

text \<open>
  C7, as amended. The claim has construction raise on mismatched dimensions. The
  constructor of both classes only stores its three arguments: it performs no
  computation, checks no dimension and returns for every \<open>y\<close>, mean and covariance.
\<close>

theorem init_stores_references:
  "gp_init y mean cov = Inr \<lparr>self_y = y, self_cov = cov, self_mean = mean\<rparr>
   \<and> inference_init y mean cov = Inr \<lparr>self_y = y, self_cov = cov, self_mean = mean\<rparr>"
  by (simp add: gp_init_def inference_init_def)

text \<open>
  C7 as stated fails: \<open>y\<close> of length 3 against a learn-purpose mean of length 2
  and a 2 by 2 learn-purpose covariance is constructed without an exception.
\<close>

theorem init_rejects_mismatch_counterexample:
  "\<not> dims_match [3, 9, 1] example_mean example_cov
   \<and> gp_init [3, 9, 1] example_mean example_cov
       = Inr \<lparr>self_y = [3, 9, 1], self_cov = example_cov, self_mean = example_mean\<rparr>
   \<and> inference_init [3, 9, 1] example_mean example_cov
       = Inr \<lparr>self_y = [3, 9, 1], self_cov = example_cov, self_mean = example_mean\<rparr>"
  by (simp add: dims_match_def gp_init_def inference_init_def example_defs array_defs)

theorem init_stores_references_witness:
  "gp_init [3, 9] example_mean example_cov = Inr example_gp
   \<and> inference_init [3, 9] example_mean example_cov = Inr example_gp"
  using init_stores_references [of "[3, 9]" example_mean example_cov]
  by (simp add: example_gp_def)

section \<open>The two classes\<close>

text \<open>
  C10. On every state the class of \<open>gp/regression.py\<close> and the class of
  \<open>inference/regression.py\<close> agree on \<open>lml()\<close>, \<open>lml_gradient()\<close> and
  \<open>variables()\<close>, and \<open>learn()\<close> takes the same branch with the same outcome. They
  differ in \<open>predict()\<close>. The inference class reads the \<open>learn_predict\<close> binding
  of the caller: it raises where the purpose is unbound, returns
  \<open>m_predict + K_learn_predict.T . Kiym\<close> where it is validly bound, and changes
  nothing. The gp class calls \<open>cov.set_data\<close> with two positional data arguments
  before it reads the purpose; \<open>set_data\<close> takes one, so the call ends in a
  \<open>TypeError\<close>: nothing is bound, nothing is unbound and nothing is returned.
\<close>

theorem gp_inference_agree:
  "gp_lml np s = inference_lml np s
   \<and> gp_lml_gradient np s = inference_lml_gradient np s
   \<and> gp_variables s = inference_variables s
   \<and> gp_learn np ms ma s = inference_learn np ms ma s
   \<and> snd (inference_predict np s) = s
   \<and> snd (gp_predict np s) = s
   \<and> (data (self_mean s) ''predict'' = Inr hmp \<and> gp_Kim np s = Inr Kiym
        \<and> data (self_cov s) ''predict'' = Inr hpp \<and> data (self_cov s) ''learn'' = Inr hl \<longrightarrow>
        fst (gp_predict np s) = Inl TypeError
        \<and> (data (self_cov s) ''learn_predict'' = Inl e \<longrightarrow> fst (inference_predict np s) = Inl e)
        \<and> (data (self_cov s) ''learn_predict'' = Inr hlp
             \<and> valid_cross (hvalue hlp) Kiym (hvalue hmp) \<longrightarrow>
            fst (inference_predict np s) = Inr (posterior_mean (hvalue hmp) (hvalue hlp) Kiym)))"
proof -
  have "fst (gp_predict np s) = Inl TypeError"
    if "data (self_mean s) ''predict'' = Inr hmp" "gp_Kim np s = Inr Kiym"
      "data (self_cov s) ''predict'' = Inr hpp" "data (self_cov s) ''learn'' = Inr hl"
    using gp_predict_TypeError [OF that] by simp
  moreover have "fst (inference_predict np s) = Inl e"
    if "data (self_mean s) ''predict'' = Inr hmp" "gp_Kim np s = Inr Kiym"
      "data (self_cov s) ''predict'' = Inr hpp" "data (self_cov s) ''learn_predict'' = Inl e"
    using inference_predict_missing [OF that] by simp
  moreover have "fst (inference_predict np s) = Inr (posterior_mean (hvalue hmp) (hvalue hlp) Kiym)"
    if "data (self_mean s) ''predict'' = Inr hmp" "gp_Kim np s = Inr Kiym"
      "data (self_cov s) ''predict'' = Inr hpp" "data (self_cov s) ''learn_predict'' = Inr hlp"
      "valid_cross (hvalue hlp) Kiym (hvalue hmp)"
    using inference_predict_value [OF that] by simp
  ultimately show ?thesis
    by (simp add: inference_lml_eq inference_lml_gradient_eq inference_variables_eq learn_eq
        inference_predict_snd gp_predict_state)
qed

text \<open>
  On \<open>example_gp\<close> the inference class predicts \<open>[7]\<close>; on \<open>unbound_gp\<close> it
  raises for the missing purpose; the gp class raises \<open>TypeError\<close> on both.
\<close>

theorem gp_inference_agree_witness:
  "gp_lml diag_linalg example_gp = inference_lml diag_linalg example_gp
   \<and> fst (gp_predict diag_linalg example_gp) = Inl TypeError
   \<and> fst (inference_predict diag_linalg example_gp) = Inr [7]
   \<and> fst (gp_predict diag_linalg unbound_gp) = Inl TypeError
   \<and> fst (inference_predict diag_linalg unbound_gp) = Inl (MissingData ''learn_predict'')"
proof -
  have v: "valid_cross [[1], [2]] [2, 2] [1]"
    by (simp add: valid_cross_def)
  from gp_inference_agree [of diag_linalg example_gp _ _
      "\<lparr>raw = 1, hvalue = [1], hgradient = [[1]]\<rparr>" "[2, 2]"
      "\<lparr>raw = (X_predict, X_predict), hvalue = [[2]], hgradient = [[[2]]]\<rparr>"
      "\<lparr>raw = (X_learn, X_learn), hvalue = [[1, 0], [0, 4]], hgradient = [[[1, 0], [0, 4]]]\<rparr>"
      _ "\<lparr>raw = (X_learn, X_predict), hvalue = [[1], [2]], hgradient = [[[1], [2]]]\<rparr>"]
    example_predict_mean example_Kim example_predict_cov example_learn_predict_cov
    example_learn_cov v
  have a: "gp_lml diag_linalg example_gp = inference_lml diag_linalg example_gp
     \<and> fst (gp_predict diag_linalg example_gp) = Inl TypeError
     \<and> fst (inference_predict diag_linalg example_gp) = Inr [7]"
    by (simp add: example_posterior_mean)
  from gp_inference_agree [of diag_linalg unbound_gp _ _
      "\<lparr>raw = 1, hvalue = [1], hgradient = [[1]]\<rparr>" "[2, 2]"
      "\<lparr>raw = (X_predict, X_predict), hvalue = [[2]], hgradient = [[[2]]]\<rparr>"
      "\<lparr>raw = (X_learn, X_learn), hvalue = [[1, 0], [0, 4]], hgradient = [[[1, 0], [0, 4]]]\<rparr>"
      "MissingData ''learn_predict''"]
    unbound_predict_mean unbound_Kim unbound_predict_cov unbound_learn_cov unbound_learn_predict
  have b: "fst (gp_predict diag_linalg unbound_gp) = Inl TypeError
     \<and> fst (inference_predict diag_linalg unbound_gp) = Inl (MissingData ''learn_predict'')"
    by simp
  from a b show ?thesis by simp
qed

section \<open>bernoulli_estimate never returns\<close>

text \<open>
  C9. Every call of \<open>bernoulli_estimate\<close> ends in an exception, whatever its
  arguments and whatever its collaborators do, so the documented pair is never
  returned. When \<open>G\<close> or \<open>K\<close> is given, the exception is the \<open>NameError\<close> of the
  undefined \<open>info\<close>, the \<open>ValueError\<close> of the truth test \<open>if G:\<close>, an
  \<open>IndexError\<close> on the decomposition, or an exception of a collaborator. The
  undefined \<open>y\<close> is never reached: \<open>info\<close> is read first.
\<close>

theorem bernoulli_estimate_raises:
  "\<exists>e. bernoulli_estimate env outcomes G K covariate = Inl e
       \<and> e \<noteq> NameError ''y''
       \<and> (G \<noteq> None \<or> K \<noteq> None \<longrightarrow>
            e = NameError ''info'' \<or> e = ValueError \<or> e = IndexError
            \<or> (\<exists>m. e = ExternalError m))"
proof -
  let ?P = "\<lambda>e. e \<noteq> NameError ''y''
       \<and> (G \<noteq> None \<or> K \<noteq> None \<longrightarrow>
            e = NameError ''info'' \<or> e = ValueError \<or> e = IndexError
            \<or> (\<exists>m. e = ExternalError m))"
  have idx: "\<exists>e. bindE (index Q 0) (\<lambda>Q0.
       bindE (index Q 1) (\<lambda>Q1.
       bindE (index S 0) (\<lambda>S0. Inl (NameError ''info'')))) = Inl e \<and> ?P e"
    for Q :: "mat list" and S :: "vec list"
    by (intro bindE_fails) (auto dest: index_Inl)
  have qs: "\<exists>e. bindE m (\<lambda>QS.
       bindE (index (fst QS) 0) (\<lambda>Q0.
       bindE (index (fst QS) 1) (\<lambda>Q1.
       bindE (index (snd QS) 0) (\<lambda>S0. Inl (NameError ''info''))))) = Inl e \<and> ?P e"
    if "\<And>e. m = Inl e \<Longrightarrow> ?P e" for m :: "error + mat list \<times> vec list"
  proof (rule bindE_fails)
    fix e
    assume "m = Inl e"
    then show "?P e" by (rule that)
  next
    fix QS :: "mat list \<times> vec list"
    show "\<exists>e. bindE (index (fst QS) 0) (\<lambda>Q0.
       bindE (index (fst QS) 1) (\<lambda>Q1.
       bindE (index (snd QS) 0) (\<lambda>S0. Inl (NameError ''info'')))) = Inl e \<and> ?P e"
      by (rule idx)
  qed
  have decomp: "?P e"
    if m: "(case G' of None \<Rightarrow> ext (qs_decomposition_from_K env K')
            | Some g \<Rightarrow> bindE (array_bool g) (\<lambda>truth.
                if truth then ext (qs_decomposition env g)
                else ext (qs_decomposition_from_K env K'))) = Inl e"
    for e G' K'
  proof (cases G')
    case None
    then have "ext (qs_decomposition_from_K env K') = Inl e"
      using m by simp
    then show ?thesis by (auto dest: ext_Inl)
  next
    case (Some g)
    show ?thesis
    proof (cases "array_bool g")
      case (Inl e')
      then have "e = ValueError"
        using m Some array_bool_Inl [of g e'] by simp
      then show ?thesis by simp
    next
      case (Inr truth)
      then have "ext (qs_decomposition env g) = Inl e
          \<or> ext (qs_decomposition_from_K env K') = Inl e"
        using m Some by (simp split: if_splits)
      then show ?thesis by (auto dest: ext_Inl)
    qed
  qed
  have body: "\<exists>e. (if G' = None \<and> K' = None
       then Inl (Exception ''G, K, and QS cannot be all None.'')
       else bindE (case G' of None \<Rightarrow> ext (qs_decomposition_from_K env K')
            | Some g \<Rightarrow> bindE (array_bool g) (\<lambda>truth.
                if truth then ext (qs_decomposition env g)
                else ext (qs_decomposition_from_K env K'))) (\<lambda>QS.
       bindE (index (fst QS) 0) (\<lambda>Q0.
       bindE (index (fst QS) 1) (\<lambda>Q1.
       bindE (index (snd QS) 0) (\<lambda>S0. Inl (NameError ''info'')))))) = Inl e \<and> ?P e"
    if "G' = None \<longleftrightarrow> G = None" "K' = None \<longleftrightarrow> K = None" for G' K'
  proof (cases "G' = None \<and> K' = None")
    case True
    then show ?thesis using that by simp
  next
    case False
    let ?m = "case G' of None \<Rightarrow> ext (qs_decomposition_from_K env K')
            | Some g \<Rightarrow> bindE (array_bool g) (\<lambda>truth.
                if truth then ext (qs_decomposition env g)
                else ext (qs_decomposition_from_K env K'))"
    have "\<exists>e. bindE ?m (\<lambda>QS.
       bindE (index (fst QS) 0) (\<lambda>Q0.
       bindE (index (fst QS) 1) (\<lambda>Q1.
       bindE (index (snd QS) 0) (\<lambda>S0. Inl (NameError ''info''))))) = Inl e \<and> ?P e"
      by (rule qs) (rule decomp)
    then show ?thesis unfolding if_not_P [OF False] .
  qed
  show ?thesis
    unfolding bernoulli_estimate_unfold
  proof (intro bindE_fails)
    fix e
    assume "(case K of None \<Rightarrow> Inr None
            | Some k \<Rightarrow> bindE (ext (gower_normalization env k)) (\<lambda>k'. Inr (Some k'))) = Inl e"
    then show "?P e"
      by (cases K; cases "ext (gower_normalization env (the K))") (auto dest: ext_Inl)
  next
    fix K' e
    assume "(case K of None \<Rightarrow> Inr None
            | Some k \<Rightarrow> bindE (ext (gower_normalization env k)) (\<lambda>k'. Inr (Some k'))) = Inr K'"
      and "(case G of None \<Rightarrow> Inr None
            | Some g \<Rightarrow> bindE (ext (stdnorm_call env g)) (\<lambda>_. Inr (Some (normalize_markers g)))) = Inl e"
    then show "?P e"
      by (cases G; cases "ext (stdnorm_call env (the G))") (auto dest: ext_Inl)
  next
    fix K' G'
    assume k: "(case K of None \<Rightarrow> Inr None
            | Some k \<Rightarrow> bindE (ext (gower_normalization env k)) (\<lambda>k'. Inr (Some k'))) = Inr K'"
      and g: "(case G of None \<Rightarrow> Inr None
            | Some g \<Rightarrow> bindE (ext (stdnorm_call env g)) (\<lambda>_. Inr (Some (normalize_markers g)))) = Inr G'"
    have k': "K' = None \<longleftrightarrow> K = None"
      using k by (cases K; cases "ext (gower_normalization env (the K))") auto
    have g': "G' = None \<longleftrightarrow> G = None"
      using g by (cases G; cases "ext (stdnorm_call env (the G))") auto
    show "\<exists>e. (if G' = None \<and> K' = None
       then Inl (Exception ''G, K, and QS cannot be all None.'')
       else bindE (case G' of None \<Rightarrow> ext (qs_decomposition_from_K env K')
            | Some g \<Rightarrow> bindE (array_bool g) (\<lambda>truth.
                if truth then ext (qs_decomposition env g)
                else ext (qs_decomposition_from_K env K'))) (\<lambda>QS.
       bindE (index (fst QS) 0) (\<lambda>Q0.
       bindE (index (fst QS) 1) (\<lambda>Q1.
       bindE (index (snd QS) 0) (\<lambda>S0. Inl (NameError ''info'')))))) = Inl e \<and> ?P e"
      by (rule body [OF g' k'])
  qed
qed

text \<open>
  With \<open>stub_env\<close>: a kinship matrix alone runs into \<open>info\<close>, a 2 by 2 marker
  matrix into the truth test.
\<close>

theorem bernoulli_estimate_raises_witness:
  "bernoulli_estimate stub_env [1, 0] None (Some [[1]]) None = Inl (NameError ''info'')
   \<and> bernoulli_estimate stub_env [1, 0] (Some [[1, 2], [3, 4]]) None None = Inl ValueError
   \<and> (\<exists>e. bernoulli_estimate stub_env [1, 0] None None None = Inl e \<and> e \<noteq> NameError ''y'')"
  using bernoulli_estimate_raises [of stub_env "[1, 0]" None None None] stub_from_K stub_from_G
  by simp

end
